theory Spec2Isabelle
  imports Main "HOL-Library.AList"
begin

section \<open>The session registry (SessionsService)\<close>

text \<open>
  A JavaScript \<open>Map\<close> keeps its entries in insertion order and holds each key once.
  It is modelled as an association list: \<open>AList.update\<close> is \<open>Map.set\<close> (an existing
  key keeps its place, a new key goes to the end), \<open>AList.delete\<close> is \<open>Map.delete\<close>,
  \<open>map_of\<close> is \<open>Map.get\<close> and \<open>length\<close> is \<open>Map.size\<close>. A \<open>Date\<close> is its value in
  milliseconds (\<open>getTime()\<close>), an integer. A \<open>Language\<close> is the string it is on the wire.
\<close>

type_synonym time = int

record SessionUser =
  user_id :: string
  user_name :: string
  color :: string
  lastSeen :: time
  socketId :: string

record Session =
  session_id :: string
  createdAt :: time
  language :: string
  participantCount :: nat

record SessionData = Session +
  users :: "(string \<times> SessionUser) list"
  codeVersion :: int

type_synonym registry = "(string \<times> SessionData) list"

definition SESSION_TIMEOUT :: int where
  "SESSION_TIMEOUT = 30 * 60 * 1000"

definition toSessionResponse :: "SessionData \<Rightarrow> Session" where
  "toSessionResponse sessionData =
     \<lparr>session_id = session_id sessionData, createdAt = createdAt sessionData,
      language = language sessionData, participantCount = participantCount sessionData\<rparr>"

text \<open>\<open>uuidv4()\<close> and \<open>new Date()\<close> are inputs: the fresh id and the clock value.\<close>

definition createSession :: "registry \<Rightarrow> string \<Rightarrow> time \<Rightarrow> string \<Rightarrow> registry \<times> Session" where
  "createSession sessions sessionId now lang =
     (let sessionData = \<lparr>session_id = sessionId, createdAt = now, language = lang,
                          participantCount = 0, users = [], codeVersion = 0\<rparr>
      in (AList.update sessionId sessionData sessions, toSessionResponse sessionData))"

definition getSession :: "registry \<Rightarrow> string \<Rightarrow> Session option" where
  "getSession sessions sessionId =
     (case map_of sessions sessionId of
        None \<Rightarrow> None
      | Some sessionData \<Rightarrow> Some (toSessionResponse sessionData))"

definition getSessionData :: "registry \<Rightarrow> string \<Rightarrow> SessionData option" where
  "getSessionData sessions sessionId = map_of sessions sessionId"

text \<open>The controller hands \<open>listSessions\<close> a limit of at least 1 and an offset of at least 0.\<close>

definition listSessions :: "registry \<Rightarrow> nat \<Rightarrow> nat \<Rightarrow> Session list \<times> nat \<times> nat \<times> nat" where
  "listSessions sessions limit offset =
     (take limit (drop offset (map (\<lambda>(k, session). toSessionResponse session) sessions)),
      length sessions, limit, offset)"

definition deleteSession :: "registry \<Rightarrow> string \<Rightarrow> registry \<times> bool" where
  "deleteSession sessions sessionId =
     (AList.delete sessionId sessions, map_of sessions sessionId \<noteq> None)"

text \<open>
  \<open>generateUserColor\<close> hashes the user id and converts a hue to a hex colour in floating
  point; no property below depends on the colour, so the function is a parameter.
\<close>

definition addUserToSession ::
  "(string \<Rightarrow> string) \<Rightarrow> registry \<Rightarrow> string \<Rightarrow> string \<Rightarrow> string \<Rightarrow> string \<Rightarrow> time
     \<Rightarrow> registry \<times> SessionUser option" where
  "addUserToSession generateUserColor sessions sessionId userId userName sockId now =
     (case map_of sessions sessionId of
        None \<Rightarrow> (sessions, None)
      | Some sessionData \<Rightarrow>
          (let user = \<lparr>user_id = userId, user_name = userName, color = generateUserColor userId,
                       lastSeen = now, socketId = sockId\<rparr>;
               users' = AList.update userId user (users sessionData)
           in (AList.update sessionId
                 (sessionData\<lparr>users := users', participantCount := length users'\<rparr>) sessions,
               Some user)))"

definition removeUserFromSession :: "registry \<Rightarrow> string \<Rightarrow> string \<Rightarrow> registry \<times> bool" where
  "removeUserFromSession sessions sessionId userId =
     (case map_of sessions sessionId of
        None \<Rightarrow> (sessions, False)
      | Some sessionData \<Rightarrow>
          (let removed = (map_of (users sessionData) userId \<noteq> None);
               users' = AList.delete userId (users sessionData)
           in if removed
              then (AList.update sessionId
                      (sessionData\<lparr>users := users', participantCount := length users'\<rparr>) sessions,
                    True)
              else (sessions, False)))"

definition updateUserLastSeen :: "registry \<Rightarrow> string \<Rightarrow> string \<Rightarrow> time \<Rightarrow> registry" where
  "updateUserLastSeen sessions sessionId userId now =
     (case map_of sessions sessionId of
        None \<Rightarrow> sessions
      | Some sessionData \<Rightarrow>
          (case map_of (users sessionData) userId of
             None \<Rightarrow> sessions
           | Some user \<Rightarrow>
               AList.update sessionId
                 (sessionData\<lparr>users := AList.update userId (user\<lparr>lastSeen := now\<rparr>) (users sessionData)\<rparr>)
                 sessions))"

definition updateSessionLanguage :: "registry \<Rightarrow> string \<Rightarrow> string \<Rightarrow> registry \<times> bool" where
  "updateSessionLanguage sessions sessionId lang =
     (case map_of sessions sessionId of
        None \<Rightarrow> (sessions, False)
      | Some sessionData \<Rightarrow> (AList.update sessionId (sessionData\<lparr>language := lang\<rparr>) sessions, True))"

definition incrementCodeVersion :: "registry \<Rightarrow> string \<Rightarrow> registry \<times> int" where
  "incrementCodeVersion sessions sessionId =
     (case map_of sessions sessionId of
        None \<Rightarrow> (sessions, - 1)
      | Some sessionData \<Rightarrow>
          (AList.update sessionId (sessionData\<lparr>codeVersion := codeVersion sessionData + 1\<rparr>) sessions,
           codeVersion sessionData + 1))"

definition getSessionUsers :: "registry \<Rightarrow> string \<Rightarrow> SessionUser list" where
  "getSessionUsers sessions sessionId =
     (case map_of sessions sessionId of
        None \<Rightarrow> []
      | Some sessionData \<Rightarrow> map snd (users sessionData))"

text \<open>
  The sweep visits every entry of the map and deletes the visited entry when it is past
  the timeout and has no users.
\<close>

definition cleanupInactiveSessions :: "registry \<Rightarrow> time \<Rightarrow> registry" where
  "cleanupInactiveSessions sessions now =
     fold (\<lambda>(sessionId, sessionData) acc.
             if now - createdAt sessionData > SESSION_TIMEOUT \<and> length (users sessionData) = 0
             then AList.delete sessionId acc else acc)
          sessions sessions"

subsection \<open>Consistency of the registry and its operations as a trace\<close>

text \<open>
  A session record is consistent when its \<open>participantCount\<close> field is the size of its
  \<open>users\<close> map; the keys of a map are pairwise distinct.
\<close>

definition session_consistent :: "SessionData \<Rightarrow> bool" where
  "session_consistent sessionData \<longleftrightarrow>
     participantCount sessionData = length (users sessionData) \<and>
     distinct (map fst (users sessionData))"

definition registry_consistent :: "registry \<Rightarrow> bool" where
  "registry_consistent sessions \<longleftrightarrow>
     distinct (map fst sessions) \<and>
     list_all (\<lambda>(k, sessionData). session_consistent sessionData) sessions"

datatype registry_op =
    CreateSession string time string
  | DeleteSession string
  | AddUserToSession string string string string time
  | RemoveUserFromSession string string
  | UpdateUserLastSeen string string time
  | UpdateSessionLanguage string string
  | IncrementCodeVersion string
  | CleanupInactiveSessions time

fun apply_op :: "(string \<Rightarrow> string) \<Rightarrow> registry_op \<Rightarrow> registry \<Rightarrow> registry" where
  "apply_op gen (CreateSession sid now lang) ss = fst (createSession ss sid now lang)"
| "apply_op gen (DeleteSession sid) ss = fst (deleteSession ss sid)"
| "apply_op gen (AddUserToSession sid uid nm sock now) ss =
     fst (addUserToSession gen ss sid uid nm sock now)"
| "apply_op gen (RemoveUserFromSession sid uid) ss = fst (removeUserFromSession ss sid uid)"
| "apply_op gen (UpdateUserLastSeen sid uid now) ss = updateUserLastSeen ss sid uid now"
| "apply_op gen (UpdateSessionLanguage sid lang) ss = fst (updateSessionLanguage ss sid lang)"
| "apply_op gen (IncrementCodeVersion sid) ss = fst (incrementCodeVersion ss sid)"
| "apply_op gen (CleanupInactiveSessions now) ss = cleanupInactiveSessions ss now"

section \<open>The WebSocket gateway (InterviewWebSocketGateway)\<close>

text \<open>
  A message payload has the TypeScript type \<open>any\<close>: it is a JSON value, \<open>JNull\<close> standing
  for both \<open>null\<close> and \<open>undefined\<close>.
\<close>

datatype json =
    JNull
  | JBool bool
  | JNum int
  | JStr string
  | JArr "json list"
  | JObj "(string \<times> json) list"

text \<open>
  Reading a property: of an object, the property's value or \<open>undefined\<close>; of any other
  value that is not \<open>null\<close>, \<open>undefined\<close> (none of the properties read below exists on a
  string, number, boolean or array). Reading a property of \<open>null\<close> throws a TypeError;
  the caller handles that case before calling \<open>json_get\<close>.
\<close>

fun json_get :: "json \<Rightarrow> string \<Rightarrow> json" where
  "json_get (JObj props) k = (case map_of props k of None \<Rightarrow> JNull | Some v \<Rightarrow> v)"
| "json_get v k = JNull"

record WebSocketMessage =
  msg_type :: string
  msg_sessionId :: string
  msg_userId :: string
  msg_payload :: json
  msg_timestamp :: int

record Handshake =
  query_sessionId :: "string option"
  query_userId :: "string option"
  query_userName :: "string option"

text \<open>
  What a handler does to the outside: \<open>Emit recipients event message\<close> is one \<open>emit\<close>
  call with the sockets it reaches, \<open>EmitConnected client sessionId userId connectedAt\<close>
  is the acknowledgment \<open>client.emit('connected', ...)\<close>, \<open>Disconnect client\<close> is
  \<open>client.disconnect()\<close>, and \<open>Throw\<close> is an exception that leaves the handler.
\<close>

datatype action =
    Emit "string list" string WebSocketMessage
  | EmitConnected string string string string
  | Disconnect string
  | Throw string

text \<open>
  The gateway's fields, the registry it is injected with, and the rooms of the socket.io
  adapter (room name to member sockets, in joining order).
\<close>

record Gateway =
  sessionsService :: registry
  userSessions :: "string \<rightharpoonup> string"
  socketUsers :: "string \<rightharpoonup> string"
  cursorUpdateThrottle :: "string \<rightharpoonup> int"
  codeUpdateThrottle :: "string \<rightharpoonup> int"
  languageChangeThrottle :: "string \<rightharpoonup> int"
  rooms :: "string \<Rightarrow> string list"

text \<open>
  The gateway's surroundings, taken as parameters: the values of the \<open>Language\<close> enum
  (declared in \<open>common/enums/language.enum\<close>), the colour derivation of the registry
  and \<open>Date.toISOString\<close>.
\<close>

record Env =
  languages :: "string list"
  userColor :: "string \<Rightarrow> string"
  toISOString :: "int \<Rightarrow> string"

definition truthy :: "string option \<Rightarrow> bool" where
  "truthy s = (case s of None \<Rightarrow> False | Some v \<Rightarrow> v \<noteq> [])"

definition or_empty :: "string option \<Rightarrow> string" where
  "or_empty s = (case s of None \<Rightarrow> [] | Some v \<Rightarrow> v)"

definition or_zero :: "int option \<Rightarrow> int" where
  "or_zero t = (case t of None \<Rightarrow> 0 | Some v \<Rightarrow> v)"

definition error_message :: "string \<Rightarrow> string \<Rightarrow> string \<Rightarrow> string \<Rightarrow> time \<Rightarrow> WebSocketMessage" where
  "error_message sessionId userId code text now =
     \<lparr>msg_type = ''error'', msg_sessionId = sessionId, msg_userId = userId,
      msg_payload = JObj [(''error'', JStr code), (''message'', JStr text)],
      msg_timestamp = now\<rparr>"

text \<open>\<open>client.to(room)\<close> reaches the room without the client, \<open>server.to(room)\<close> all of it.\<close>

definition client_to :: "Gateway \<Rightarrow> string \<Rightarrow> string \<Rightarrow> string list" where
  "client_to g client room = filter (\<lambda>s. s \<noteq> client) (rooms g room)"

definition server_to :: "Gateway \<Rightarrow> string \<Rightarrow> string list" where
  "server_to g room = rooms g room"

definition client_join :: "Gateway \<Rightarrow> string \<Rightarrow> string \<Rightarrow> Gateway" where
  "client_join g client room =
     g\<lparr>rooms := (rooms g)(room := (if client \<in> set (rooms g room) then rooms g room
                                     else rooms g room @ [client]))\<rparr>"

definition broadcastPresenceUpdate :: "Env \<Rightarrow> Gateway \<Rightarrow> time \<Rightarrow> string \<Rightarrow> action" where
  "broadcastPresenceUpdate env g now sessionId =
     Emit (server_to g sessionId) ''presence-update''
       \<lparr>msg_type = ''presence-update'', msg_sessionId = sessionId, msg_userId = ''system'',
        msg_payload = JObj [(''users'', JArr (map (\<lambda>user.
            JObj [(''id'', JStr (user_id user)), (''name'', JStr (user_name user)),
                  (''color'', JStr (color user)),
                  (''lastSeen'', JStr (toISOString env (lastSeen user)))])
          (getSessionUsers (sessionsService g) sessionId)))],
        msg_timestamp = now\<rparr>"

definition handleConnection :: "Env \<Rightarrow> Gateway \<Rightarrow> time \<Rightarrow> string \<Rightarrow> Handshake \<Rightarrow> Gateway \<times> action list" where
  "handleConnection env g now client handshake =
     (if \<not> truthy (query_sessionId handshake) \<or> \<not> truthy (query_userId handshake)
         \<or> \<not> truthy (query_userName handshake)
      then (g, [Disconnect client])
      else
        (let sessionId = or_empty (query_sessionId handshake);
             userId = or_empty (query_userId handshake);
             userName = or_empty (query_userName handshake)
         in case getSession (sessionsService g) sessionId of
              None \<Rightarrow> (g, [Disconnect client])
            | Some session \<Rightarrow>
                (case addUserToSession (userColor env) (sessionsService g) sessionId userId
                        userName client now of
                   (sessions', None) \<Rightarrow> (g\<lparr>sessionsService := sessions'\<rparr>, [Disconnect client])
                 | (sessions', Some user) \<Rightarrow>
                     (let g1 = client_join
                                 (g\<lparr>sessionsService := sessions',
                                    userSessions := (userSessions g)(client \<mapsto> sessionId),
                                    socketUsers := (socketUsers g)(client \<mapsto> userId)\<rparr>)
                                 client sessionId
                      in (g1,
                          [EmitConnected client sessionId userId (toISOString env now),
                           Emit (client_to g1 client sessionId) ''user-joined''
                             \<lparr>msg_type = ''user-joined'', msg_sessionId = sessionId,
                              msg_userId = userId,
                              msg_payload = JObj [(''id'', JStr (user_id user)),
                                                  (''name'', JStr (user_name user)),
                                                  (''color'', JStr (color user))],
                              msg_timestamp = now\<rparr>,
                           broadcastPresenceUpdate env g1 now sessionId])))))"

definition handleDisconnect :: "Env \<Rightarrow> Gateway \<Rightarrow> time \<Rightarrow> string \<Rightarrow> Gateway \<times> action list" where
  "handleDisconnect env g now client =
     (if truthy (userSessions g client) \<and> truthy (socketUsers g client)
      then
        (let sessionId = or_empty (userSessions g client);
             userId = or_empty (socketUsers g client);
             g1 = g\<lparr>sessionsService := fst (removeUserFromSession (sessionsService g) sessionId userId)\<rparr>;
             left = Emit (client_to g1 client sessionId) ''user-left''
                      \<lparr>msg_type = ''user-left'', msg_sessionId = sessionId, msg_userId = userId,
                       msg_payload = JObj [(''reason'', JStr ''disconnect'')],
                       msg_timestamp = now\<rparr>;
             presence = broadcastPresenceUpdate env g1 now sessionId
         in (g1\<lparr>userSessions := (userSessions g1)(client := None),
                 socketUsers := (socketUsers g1)(client := None),
                 cursorUpdateThrottle := (cursorUpdateThrottle g1)(userId := None),
                 codeUpdateThrottle := (codeUpdateThrottle g1)(userId := None),
                 languageChangeThrottle := (languageChangeThrottle g1)(userId := None)\<rparr>,
             [left, presence]))
      else (g, []))"

text \<open>
  The gateway is declared with \<open>namespace: '/'\<close>, so the server it is given is the
  socket.io namespace \<open>/\<close>. The \<open>sockets\<close> of a namespace is a map from socket ids
  to sockets, and a map has no property \<open>adapter\<close>: \<open>this.server.sockets.adapter\<close> is
  \<open>undefined\<close> (here \<open>None\<close>), and reading its \<open>rooms\<close> throws a TypeError.
\<close>

definition server_sockets_adapter :: "Gateway \<Rightarrow> (string \<Rightarrow> string list) option" where
  "server_sockets_adapter g = None"

text \<open>
  \<open>handleCodeUpdate\<close>. Every \<open>Date.now()\<close> of one call is the one clock value \<open>now\<close>.
  The throttle entry is written before the version is bumped. After the bump the
  handler builds the message, reading \<open>message.payload.delta\<close> (a TypeError when the
  payload is \<open>null\<close> or \<open>undefined\<close>), then reads
  \<open>this.server.sockets.adapter.rooms\<close> for its log line, and only then emits.
\<close>

definition handleCodeUpdate :: "Gateway \<Rightarrow> time \<Rightarrow> string \<Rightarrow> WebSocketMessage \<Rightarrow> Gateway \<times> action list" where
  "handleCodeUpdate g now client message =
     (if \<not> truthy (userSessions g client) \<or> \<not> truthy (socketUsers g client)
      then (g, [Emit [client] ''error''
                  (error_message (msg_sessionId message) (or_empty (socketUsers g client))
                     ''USER_NOT_IN_SESSION'' ''User not connected to session'' now)])
      else
        (let sessionId = or_empty (userSessions g client);
             userId = or_empty (socketUsers g client)
         in if sessionId \<noteq> msg_sessionId message
            then (g, [Emit [client] ''error''
                        (error_message sessionId userId ''INVALID_SESSION'' ''Session ID mismatch'' now)])
            else
              (let lastUpdate = or_zero (codeUpdateThrottle g userId)
               in if now - lastUpdate < 20
                  then (g, [])
                  else
                    (let (sessions', version) = incrementCodeVersion (sessionsService g) sessionId;
                         g1 = g\<lparr>codeUpdateThrottle := (codeUpdateThrottle g)(userId \<mapsto> now),
                                sessionsService := sessions'\<rparr>
                     in if version = - 1
                        then (g1, [Emit [client] ''error''
                                     (error_message sessionId userId ''SESSION_NOT_FOUND''
                                        ''Session does not exist'' now)])
                        else
                          (let g2 = g1\<lparr>sessionsService :=
                                          updateUserLastSeen (sessionsService g1) sessionId userId now\<rparr>
                           in if msg_payload message = JNull
                              then (g2, [Throw ''TypeError''])
                              else
                                (case server_sockets_adapter g2 of
                                   None \<Rightarrow> (g2, [Throw ''TypeError''])
                                 | Some adapter_rooms \<Rightarrow>
                                     (g2, [Emit (client_to g2 client sessionId) ''code-update''
                                             \<lparr>msg_type = ''code-update'', msg_sessionId = sessionId,
                                              msg_userId = userId,
                                              msg_payload =
                                                JObj [(''delta'', json_get (msg_payload message) ''delta''),
                                                      (''version'', JNum version)],
                                              msg_timestamp = now\<rparr>])))))))"

definition handleCursorUpdate :: "Gateway \<Rightarrow> time \<Rightarrow> string \<Rightarrow> WebSocketMessage \<Rightarrow> Gateway \<times> action list" where
  "handleCursorUpdate g now client message =
     (if \<not> truthy (userSessions g client) \<or> \<not> truthy (socketUsers g client)
      then (g, [])
      else
        (let sessionId = or_empty (userSessions g client);
             userId = or_empty (socketUsers g client)
         in if sessionId \<noteq> msg_sessionId message
            then (g, [])
            else
              (let lastUpdate = or_zero (cursorUpdateThrottle g userId)
               in if now - lastUpdate < 100
                  then (g, [])
                  else
                    (let g1 = g\<lparr>cursorUpdateThrottle := (cursorUpdateThrottle g)(userId \<mapsto> now),
                                sessionsService :=
                                  updateUserLastSeen (sessionsService g) sessionId userId now\<rparr>
                     in (g1, [Emit (client_to g1 client sessionId) ''cursor-update''
                                \<lparr>msg_type = ''cursor-update'', msg_sessionId = sessionId,
                                 msg_userId = userId, msg_payload = msg_payload message,
                                 msg_timestamp = now\<rparr>])))))"

text \<open>
  \<open>Object.values(Language).includes(language)\<close> holds when the payload is a string that is
  one of the enum's values.
\<close>

definition is_language :: "Env \<Rightarrow> json \<Rightarrow> bool" where
  "is_language env p = (case p of JStr l \<Rightarrow> l \<in> set (languages env) | _ \<Rightarrow> False)"

definition language_of :: "json \<Rightarrow> string" where
  "language_of p = (case p of JStr l \<Rightarrow> l | _ \<Rightarrow> [])"

definition handleLanguageChange ::
  "Env \<Rightarrow> Gateway \<Rightarrow> time \<Rightarrow> string \<Rightarrow> WebSocketMessage \<Rightarrow> Gateway \<times> action list" where
  "handleLanguageChange env g now client message =
     (if \<not> truthy (userSessions g client) \<or> \<not> truthy (socketUsers g client)
      then (g, [Emit [client] ''error''
                  (error_message (msg_sessionId message) (or_empty (socketUsers g client))
                     ''USER_NOT_IN_SESSION'' ''User not connected to session'' now)])
      else
        (let sessionId = or_empty (userSessions g client);
             userId = or_empty (socketUsers g client)
         in if sessionId \<noteq> msg_sessionId message
            then (g, [Emit [client] ''error''
                        (error_message sessionId userId ''INVALID_SESSION'' ''Session ID mismatch'' now)])
            else if \<not> is_language env (msg_payload message)
            then (g, [Emit [client] ''error''
                        (error_message sessionId userId ''INVALID_LANGUAGE'' ''Unsupported language'' now)])
            else
              (let lastChange = or_zero (languageChangeThrottle g userId)
               in if now - lastChange < 5000
                  then (g, [Emit [client] ''error''
                              (error_message sessionId userId ''RATE_LIMIT_EXCEEDED''
                                 ''Language changes are limited to 1 per 5 seconds'' now)])
                  else
                    (let lang = language_of (msg_payload message);
                         (sessions', updated) = updateSessionLanguage (sessionsService g) sessionId lang;
                         g1 = g\<lparr>languageChangeThrottle := (languageChangeThrottle g)(userId \<mapsto> now),
                                sessionsService := sessions'\<rparr>
                     in if \<not> updated
                        then (g1, [Emit [client] ''error''
                                     (error_message sessionId userId ''SESSION_NOT_FOUND''
                                        ''Session does not exist'' now)])
                        else
                          (let g2 = g1\<lparr>sessionsService :=
                                          updateUserLastSeen (sessionsService g1) sessionId userId now\<rparr>
                           in (g2, [Emit (server_to g2 sessionId) ''language-changed''
                                      \<lparr>msg_type = ''language-changed'', msg_sessionId = sessionId,
                                       msg_userId = userId, msg_payload = JStr lang,
                                       msg_timestamp = now\<rparr>]))))))"

subsection \<open>The gateway and the registry driven by a trace of events\<close>

text \<open>
  The server runs one handler at a time to its end (none of them awaits), so what many
  connections do at once is a sequence of events, each with the clock value of its
  handler. When a transport closes, socket.io takes the socket out of its rooms and
  then calls \<open>handleDisconnect\<close>. The last three events are the registry's other
  callers: the HTTP controller and the sweep timer.
\<close>

datatype event =
    Connect string Handshake
  | Close string
  | CodeUpdate string WebSocketMessage
  | CursorUpdate string WebSocketMessage
  | LanguageChange string WebSocketMessage
  | HttpCreateSession string string
  | HttpDeleteSession string
  | SweepTick

definition leave_all :: "Gateway \<Rightarrow> string \<Rightarrow> Gateway" where
  "leave_all g client = g\<lparr>rooms := (\<lambda>room. removeAll client (rooms g room))\<rparr>"

fun step :: "Env \<Rightarrow> Gateway \<Rightarrow> time \<times> event \<Rightarrow> Gateway \<times> action list" where
  "step env g (now, Connect client handshake) = handleConnection env g now client handshake"
| "step env g (now, Close client) = handleDisconnect env (leave_all g client) now client"
| "step env g (now, CodeUpdate client message) = handleCodeUpdate g now client message"
| "step env g (now, CursorUpdate client message) = handleCursorUpdate g now client message"
| "step env g (now, LanguageChange client message) = handleLanguageChange env g now client message"
| "step env g (now, HttpCreateSession sessionId lang) =
     (g\<lparr>sessionsService := fst (createSession (sessionsService g) sessionId now lang)\<rparr>, [])"
| "step env g (now, HttpDeleteSession sessionId) =
     (g\<lparr>sessionsService := fst (deleteSession (sessionsService g) sessionId)\<rparr>, [])"
| "step env g (now, SweepTick) =
     (g\<lparr>sessionsService := cleanupInactiveSessions (sessionsService g) now\<rparr>, [])"

fun run :: "Env \<Rightarrow> Gateway \<Rightarrow> (time \<times> event) list \<Rightarrow> Gateway \<times> action list" where
  "run env g [] = (g, [])"
| "run env g (e # es) =
     (let (g1, acts1) = step env g e;
          (g2, acts2) = run env g1 es
      in (g2, acts1 @ acts2))"

definition initial_gateway :: Gateway where
  "initial_gateway =
     \<lparr>sessionsService = [], userSessions = Map.empty, socketUsers = Map.empty,
      cursorUpdateThrottle = Map.empty, codeUpdateThrottle = Map.empty,
      languageChangeThrottle = Map.empty, rooms = (\<lambda>room. [])\<rparr>"

text \<open>The versions carried by the code-update broadcasts of one session, in order.\<close>

fun payload_version :: "json \<Rightarrow> int option" where
  "payload_version (JObj props) = (case map_of props ''version'' of Some (JNum v) \<Rightarrow> Some v | _ \<Rightarrow> None)"
| "payload_version v = None"

fun broadcast_version :: "string \<Rightarrow> action \<Rightarrow> int option" where
  "broadcast_version sessionId (Emit recipients ev message) =
     (if ev = ''code-update'' \<and> msg_sessionId message = sessionId
      then payload_version (msg_payload message) else None)"
| "broadcast_version sessionId a = None"

definition broadcast_versions :: "string \<Rightarrow> action list \<Rightarrow> int list" where
  "broadcast_versions sessionId acts = List.map_filter (broadcast_version sessionId) acts"

section \<open>The HTTP rate limiter (RateLimitGuard)\<close>

record RateLimitRecord =
  count :: int
  resetTime :: int

record Limit =
  limit_max :: int
  window :: int

text \<open>
  Of a request the guard reads \<open>ip\<close>, \<open>connection.remoteAddress\<close>, \<open>method\<close>,
  \<open>route?.path\<close> and \<open>path\<close>.
\<close>

record Request =
  ip :: "string option"
  remoteAddress :: "string option"
  http_method :: string
  route_path :: "string option"
  path :: string

datatype http_error = RATE_LIMIT_EXCEEDED

text \<open>\<open>s.includes(p)\<close> and \<open>s.replace(p, r)\<close> (the first occurrence of a string pattern).\<close>

fun startsWith :: "string \<Rightarrow> string \<Rightarrow> bool" where
  "startsWith s [] = True"
| "startsWith [] (c # p) = False"
| "startsWith (a # s) (c # p) = (a = c \<and> startsWith s p)"

fun str_includes :: "string \<Rightarrow> string \<Rightarrow> bool" where
  "str_includes [] p = (p = [])"
| "str_includes (a # s) p = (startsWith (a # s) p \<or> str_includes s p)"

fun str_replace :: "string \<Rightarrow> string \<Rightarrow> string \<Rightarrow> string" where
  "str_replace [] p r = (if p = [] then r else [])"
| "str_replace (a # s) p r =
     (if startsWith (a # s) p then r @ drop (length p) (a # s) else a # str_replace s p r)"

definition default_limit :: Limit where
  "default_limit = \<lparr>limit_max = 100, window = 60000\<rparr>"

definition limits :: "(string \<times> Limit) list" where
  "limits =
     [(''POST /api/sessions'', \<lparr>limit_max = 10, window = 60000\<rparr>),
      (''POST /api/sessions/:sessionId/join'', \<lparr>limit_max = 20, window = 60000\<rparr>),
      (''default'', default_limit)]"

definition request_path :: "Request \<Rightarrow> string" where
  "request_path request =
     (if truthy (route_path request) then or_empty (route_path request) else path request)"

definition getKey :: "Request \<Rightarrow> string" where
  "getKey request =
     (let ip = (if truthy (ip request) then or_empty (ip request)
                else if truthy (remoteAddress request) then or_empty (remoteAddress request)
                else ''unknown'')
      in ip @ '':'' @ http_method request @ '' '' @ request_path request)"

fun getLimit_entries :: "string \<Rightarrow> (string \<times> Limit) list \<Rightarrow> Limit" where
  "getLimit_entries key [] = default_limit"
| "getLimit_entries key ((pattern, limit) # entries) =
     (if pattern = ''default'' then getLimit_entries key entries
      else if str_includes key (str_replace pattern ''/api'' []) then limit
      else getLimit_entries key entries)"

definition getLimit :: "Request \<Rightarrow> Limit" where
  "getLimit request = getLimit_entries (http_method request @ '' '' @ request_path request) limits"

text \<open>\<open>canActivate\<close> returns \<open>true\<close> or throws the \<open>HttpException\<close>; \<open>now\<close> is \<open>Date.now()\<close>.\<close>

definition canActivate ::
  "(string \<rightharpoonup> RateLimitRecord) \<Rightarrow> Request \<Rightarrow> time
     \<Rightarrow> (string \<rightharpoonup> RateLimitRecord) \<times> (http_error + bool)" where
  "canActivate store request now =
     (let key = getKey request;
          limit = getLimit request
      in case store key of
           None \<Rightarrow> (store(key \<mapsto> \<lparr>count = 1, resetTime = now + window limit\<rparr>), Inr True)
         | Some record \<Rightarrow>
             if now > resetTime record
             then (store(key \<mapsto> \<lparr>count = 1, resetTime = now + window limit\<rparr>), Inr True)
             else if count record \<ge> limit_max limit
             then (store, Inl RATE_LIMIT_EXCEEDED)
             else (store(key \<mapsto> record\<lparr>count := count record + 1\<rparr>), Inr True))"

section \<open>The client's connection hook (useWebSocket)\<close>

definition RECONNECTION_ATTEMPTS :: nat where
  "RECONNECTION_ATTEMPTS = 5"

definition RECONNECTION_DELAY :: nat where
  "RECONNECTION_DELAY = 1000"

text \<open>
  The hook's refs and state. \<open>socketRef\<close> holds whether the socket it refers to is
  connected; \<open>reconnectTimeoutRef\<close> holds the delay of the timer it refers to.
\<close>

record Hook =
  socketRef :: "bool option"
  isConnected :: bool
  connectionError :: "string option"
  reconnectAttemptsRef :: nat
  reconnectTimeoutRef :: "nat option"

text \<open>What the hook calls: \<open>io(url, options)\<close>, \<open>socket.disconnect()\<close> and \<open>clearTimeout\<close>.\<close>

datatype hook_call =
    Io string string string
  | SocketDisconnect
  | ClearTimeout

text \<open>\<open>connect\<close> opens a socket unless the current one is connected.\<close>

definition connect :: "Hook \<Rightarrow> string \<Rightarrow> string \<Rightarrow> string \<Rightarrow> Hook \<times> hook_call list" where
  "connect h sessionId userId userName =
     (if socketRef h = Some True then (h, [])
      else (h\<lparr>socketRef := Some False\<rparr>, [Io sessionId userId userName]))"

text \<open>The listeners that \<open>connect\<close> registers for the socket's connection events.\<close>

definition on_connect :: "Hook \<Rightarrow> Hook \<times> hook_call list" where
  "on_connect h =
     (h\<lparr>socketRef := map_option (\<lambda>c. True) (socketRef h), isConnected := True,
        connectionError := None, reconnectAttemptsRef := 0\<rparr>, [])"

definition on_disconnect :: "Hook \<Rightarrow> string \<Rightarrow> Hook \<times> hook_call list" where
  "on_disconnect h reason =
     (h\<lparr>socketRef := map_option (\<lambda>c. False) (socketRef h), isConnected := False\<rparr>, [])"

definition on_connect_error :: "Hook \<Rightarrow> string \<Rightarrow> Hook \<times> hook_call list" where
  "on_connect_error h err = (h\<lparr>connectionError := Some err\<rparr>, [])"

text \<open>The deliberate \<open>disconnect\<close>.\<close>

definition disconnect :: "Hook \<Rightarrow> Hook \<times> hook_call list" where
  "disconnect h =
     (let (h1, calls1) = (if reconnectTimeoutRef h \<noteq> None
                          then (h\<lparr>reconnectTimeoutRef := None\<rparr>, [ClearTimeout])
                          else (h, []));
          (h2, calls2) = (if socketRef h1 \<noteq> None
                          then (h1\<lparr>socketRef := None\<rparr>, [SocketDisconnect])
                          else (h1, []))
      in (h2\<lparr>isConnected := False\<rparr>, calls1 @ calls2))"

subsection \<open>Acceptance of an event\<close>

text \<open>
  An edit is accepted when it passes every check of \<open>handleCodeUpdate\<close>: the connection
  is bound, the envelope names the bound session, the sender is not throttled and the
  registry has the session (\<open>incrementCodeVersion\<close> does not answer \<open>-1\<close>). A language
  change is accepted when it passes every check of \<open>handleLanguageChange\<close>.
\<close>

definition code_update_accepted :: "Gateway \<Rightarrow> time \<Rightarrow> string \<Rightarrow> WebSocketMessage \<Rightarrow> bool" where
  "code_update_accepted g now client message \<longleftrightarrow>
     truthy (userSessions g client) \<and> truthy (socketUsers g client) \<and>
     or_empty (userSessions g client) = msg_sessionId message \<and>
     \<not> now - or_zero (codeUpdateThrottle g (or_empty (socketUsers g client))) < 20 \<and>
     snd (incrementCodeVersion (sessionsService g) (msg_sessionId message)) \<noteq> - 1"

definition language_change_accepted :: "Env \<Rightarrow> Gateway \<Rightarrow> time \<Rightarrow> string \<Rightarrow> WebSocketMessage \<Rightarrow> bool" where
  "language_change_accepted env g now client message \<longleftrightarrow>
     truthy (userSessions g client) \<and> truthy (socketUsers g client) \<and>
     or_empty (userSessions g client) = msg_sessionId message \<and>
     is_language env (msg_payload message) \<and>
     \<not> now - or_zero (languageChangeThrottle g (or_empty (socketUsers g client))) < 5000 \<and>
     getSessionData (sessionsService g) (msg_sessionId message) \<noteq> None"

text \<open>
  Every binding of a socket names a session and a user, and the socket is a member of
  that session's room.
\<close>

definition bindings_in_rooms :: "Gateway \<Rightarrow> bool" where
  "bindings_in_rooms g \<longleftrightarrow>
     (\<forall>client sessionId. userSessions g client = Some sessionId \<longrightarrow>
        sessionId \<noteq> [] \<and> client \<in> set (rooms g sessionId) \<and> truthy (socketUsers g client))"

subsection \<open>A concrete run, for evaluation\<close>

definition example_env :: Env where
  "example_env =
     \<lparr>languages = [''javascript'', ''typescript'', ''python''],
      userColor = (\<lambda>userId. ''#bf4040''), toISOString = (\<lambda>t. ''1970-01-01T00:00:00.000Z'')\<rparr>"

definition handshake_of :: "string \<Rightarrow> string \<Rightarrow> string \<Rightarrow> Handshake" where
  "handshake_of sessionId userId userName =
     \<lparr>query_sessionId = Some sessionId, query_userId = Some userId, query_userName = Some userName\<rparr>"

text \<open>Session \<open>s1\<close> is created, then Ann joins it on socket \<open>sock1\<close> and Bob on \<open>sock2\<close>.\<close>

definition example_gateway :: Gateway where
  "example_gateway =
     fst (run example_env initial_gateway
            [(1000, HttpCreateSession ''s1'' ''javascript''),
             (2000, Connect ''sock1'' (handshake_of ''s1'' ''ann'' ''Ann'')),
             (3000, Connect ''sock2'' (handshake_of ''s1'' ''bob'' ''Bob''))])"

definition edit_message :: "string \<Rightarrow> string \<Rightarrow> string \<Rightarrow> int \<Rightarrow> time \<Rightarrow> WebSocketMessage" where
  "edit_message sessionId userId code claimed now =
     \<lparr>msg_type = ''code-update'', msg_sessionId = sessionId, msg_userId = userId,
      msg_payload = JObj [(''delta'', JObj [(''fullCode'', JStr code)]), (''version'', JNum claimed)],
      msg_timestamp = now\<rparr>"

definition language_message :: "string \<Rightarrow> string \<Rightarrow> string \<Rightarrow> time \<Rightarrow> WebSocketMessage" where
  "language_message sessionId userId lang now =
     \<lparr>msg_type = ''language-changed'', msg_sessionId = sessionId, msg_userId = userId,
      msg_payload = JStr lang, msg_timestamp = now\<rparr>"

text \<open>
  After Ann and Bob have joined: an edit of Ann claiming version 7, one of hers 5 ms
  later, one of Bob claiming version 99, and a third of Ann.
\<close>

definition example_trace :: "(time \<times> event) list" where
  "example_trace =
     [(2000, Connect ''sock1'' (handshake_of ''s1'' ''ann'' ''Ann'')),
      (3000, Connect ''sock2'' (handshake_of ''s1'' ''bob'' ''Bob'')),
      (5000, CodeUpdate ''sock1'' (edit_message ''s1'' ''ann'' ''let a'' 7 5000)),
      (5005, CodeUpdate ''sock1'' (edit_message ''s1'' ''ann'' ''let ab'' 8 5005)),
      (5010, CodeUpdate ''sock2'' (edit_message ''s1'' ''bob'' ''let b'' 99 5010)),
      (5030, CodeUpdate ''sock1'' (edit_message ''s1'' ''ann'' ''let abc'' 1 5030))]"

text \<open>An edit whose payload is \<open>null\<close>.\<close>

definition null_edit_message :: "string \<Rightarrow> string \<Rightarrow> time \<Rightarrow> WebSocketMessage" where
  "null_edit_message sessionId userId now =
     \<lparr>msg_type = ''code-update'', msg_sessionId = sessionId, msg_userId = userId,
      msg_payload = JNull, msg_timestamp = now\<rparr>"

text \<open>Ann opens a second connection, \<open>sock3\<close>, to the same session.\<close>

definition two_connections :: Gateway where
  "two_connections =
     fst (run example_env example_gateway
            [(4000, Connect ''sock3'' (handshake_of ''s1'' ''ann'' ''Ann''))])"

text \<open>The error code of a private error frame.\<close>

fun error_code :: "action \<Rightarrow> string option" where
  "error_code (Emit recipients ev message) =
     (if ev = ''error''
      then (case json_get (msg_payload message) ''error'' of JStr code \<Rightarrow> Some code | _ \<Rightarrow> None)
      else None)"
| "error_code a = None"

text \<open>The version counter of a session, when the registry has the session.\<close>

definition version_of :: "Gateway \<Rightarrow> string \<Rightarrow> int option" where
  "version_of g sessionId = map_option codeVersion (getSessionData (sessionsService g) sessionId)"

subsection \<open>Conditions on a trace\<close>

text \<open>The action emits a \<open>code-update\<close> event.\<close>

fun is_code_update :: "action \<Rightarrow> bool" where
  "is_code_update (Emit recipients ev message) = (ev = ''code-update'')"
| "is_code_update a = False"

text \<open>The action emits a \<open>language-changed\<close> event.\<close>

fun is_language_changed :: "action \<Rightarrow> bool" where
  "is_language_changed (Emit recipients ev message) = (ev = ''language-changed'')"
| "is_language_changed a = False"

text \<open>The payload of the message an action emits.\<close>

fun msg_payload_of :: "action \<Rightarrow> json" where
  "msg_payload_of (Emit recipients ev message) = msg_payload message"
| "msg_payload_of a = JNull"

text \<open>The action is the broadcast of an edit of that user.\<close>

fun is_edit_by :: "string \<Rightarrow> action \<Rightarrow> bool" where
  "is_edit_by userId (Emit recipients ev message) = (ev = ''code-update'' \<and> msg_userId message = userId)"
| "is_edit_by userId a = False"

text \<open>The sockets an action reaches.\<close>

fun recipients_of :: "action \<Rightarrow> string list" where
  "recipients_of (Emit recipients ev message) = recipients"
| "recipients_of (EmitConnected client sessionId userId connectedAt) = [client]"
| "recipients_of a = []"

text \<open>No connection of the user is closed in the course of the trace.\<close>

fun is_close_of :: "Gateway \<Rightarrow> string \<Rightarrow> event \<Rightarrow> bool" where
  "is_close_of g userId (Close client) = (socketUsers g client = Some userId)"
| "is_close_of g userId ev = False"

fun connections_stay_open :: "Env \<Rightarrow> string \<Rightarrow> Gateway \<Rightarrow> (time \<times> event) list \<Rightarrow> bool" where
  "connections_stay_open env userId g [] = True"
| "connections_stay_open env userId g (e # es) =
     (\<not> is_close_of g userId (snd e) \<and> connections_stay_open env userId (fst (step env g e)) es)"

text \<open>Ann sends \<open>n\<close> edits from \<open>sock1\<close>, 10 ms apart, the first at time \<open>t\<close>.\<close>

definition edit_burst :: "time \<Rightarrow> nat \<Rightarrow> (time \<times> event) list" where
  "edit_burst t n =
     map (\<lambda>i. (t + 10 * int i,
                CodeUpdate ''sock1'' (edit_message ''s1'' ''ann'' ''let x'' 1 (t + 10 * int i))))
       [0..<n]"

subsection \<open>The hook driven by the socket's connection events\<close>

datatype socket_event =
    SocketConnect
  | SocketDisconnected string
  | SocketConnectError string

fun on_event :: "Hook \<Rightarrow> socket_event \<Rightarrow> Hook \<times> hook_call list" where
  "on_event h SocketConnect = on_connect h"
| "on_event h (SocketDisconnected reason) = on_disconnect h reason"
| "on_event h (SocketConnectError err) = on_connect_error h err"

fun on_events :: "Hook \<Rightarrow> socket_event list \<Rightarrow> Hook \<times> hook_call list" where
  "on_events h [] = (h, [])"
| "on_events h (e # es) =
     (let (h1, calls1) = on_event h e;
          (h2, calls2) = on_events h1 es
      in (h2, calls1 @ calls2))"
section \<open>Properties of the registry\<close>

lemma set_update_cases:
  "(k', v') \<in> set (AList.update k v al) \<Longrightarrow> (k', v') = (k, v) \<or> (k', v') \<in> set al"
  by (induction al) (auto split: if_splits)

lemma set_delete_subset: "set (AList.delete k al) \<subseteq> set al"
  by (auto simp: AList.delete_eq)

lemma length_update_existing:
  "map_of al k = Some v' \<Longrightarrow> length (AList.update k v al) = length al"
  by (induction al) (auto split: if_splits)

lemma registry_consistent_update:
  "registry_consistent ss \<Longrightarrow> session_consistent sd \<Longrightarrow> registry_consistent (AList.update k sd ss)"
  unfolding registry_consistent_def list_all_iff
  by (auto simp: distinct_update dest: set_update_cases)

lemma registry_consistent_delete:
  "registry_consistent ss \<Longrightarrow> registry_consistent (AList.delete k ss)"
  unfolding registry_consistent_def list_all_iff
  using set_delete_subset[of k ss] by (auto simp: distinct_delete)

lemma registry_consistent_lookup:
  "registry_consistent ss \<Longrightarrow> map_of ss k = Some sd \<Longrightarrow> session_consistent sd"
  unfolding registry_consistent_def list_all_iff by (auto dest: map_of_SomeD)

lemma cleanup_fold_consistent:
  "registry_consistent acc \<Longrightarrow>
   registry_consistent (fold (\<lambda>(sessionId, sessionData) acc.
             if now - createdAt sessionData > SESSION_TIMEOUT \<and> length (users sessionData) = 0
             then AList.delete sessionId acc else acc) xs acc)"
  by (induction xs arbitrary: acc) (auto simp: registry_consistent_delete)

lemma apply_op_consistent:
  assumes inv: "registry_consistent ss"
  shows "registry_consistent (apply_op gen op ss)"
proof (cases op)
  case (CreateSession sid now lang)
  with inv show ?thesis
    by (auto simp: createSession_def Let_def session_consistent_def intro!: registry_consistent_update)
next
  case (DeleteSession sid)
  with inv show ?thesis by (simp add: deleteSession_def registry_consistent_delete)
next
  case (AddUserToSession sid uid nm sock now)
  with inv show ?thesis
    by (auto simp: addUserToSession_def Let_def session_consistent_def distinct_update
        split: option.splits intro!: registry_consistent_update dest: registry_consistent_lookup)
next
  case (RemoveUserFromSession sid uid)
  with inv show ?thesis
    by (auto simp: removeUserFromSession_def Let_def session_consistent_def distinct_delete
        split: option.splits intro!: registry_consistent_update dest: registry_consistent_lookup)
next
  case (UpdateUserLastSeen sid uid now)
  with inv show ?thesis
    by (auto simp: updateUserLastSeen_def Let_def session_consistent_def distinct_update
        length_update_existing
        split: option.splits intro!: registry_consistent_update dest: registry_consistent_lookup)
next
  case (UpdateSessionLanguage sid lang)
  with inv show ?thesis
    by (auto simp: updateSessionLanguage_def Let_def session_consistent_def
        split: option.splits intro!: registry_consistent_update dest: registry_consistent_lookup)
next
  case (IncrementCodeVersion sid)
  with inv show ?thesis
    by (auto simp: incrementCodeVersion_def Let_def session_consistent_def
        split: option.splits intro!: registry_consistent_update dest: registry_consistent_lookup)
next
  case (CleanupInactiveSessions now)
  show ?thesis
    unfolding CleanupInactiveSessions apply_op.simps cleanupInactiveSessions_def
    using inv by (rule cleanup_fold_consistent)
qed

lemma run_ops_consistent:
  "registry_consistent ss \<Longrightarrow> registry_consistent (fold (apply_op gen) ops ss)"
  by (induction ops arbitrary: ss) (auto simp: apply_op_consistent)

lemma empty_registry_consistent: "registry_consistent []"
  by (simp add: registry_consistent_def)

lemma cleanup_fold_map_of:
  "map_of (fold (\<lambda>(sessionId, sessionData) acc.
             if now - createdAt sessionData > SESSION_TIMEOUT \<and> length (users sessionData) = 0
             then AList.delete sessionId acc else acc) xs acc) k =
   (if \<exists>sd. (k, sd) \<in> set xs \<and> now - createdAt sd > SESSION_TIMEOUT \<and> length (users sd) = 0
    then None else map_of acc k)"
  by (induction xs arbitrary: acc) (auto simp: delete_conv')

lemma cleanup_lookup:
  assumes "distinct (map fst sessions)" and "map_of sessions k = Some sd"
  shows "map_of (cleanupInactiveSessions sessions now) k =
     (if now - createdAt sd > SESSION_TIMEOUT \<and> length (users sd) = 0 then None else Some sd)"
proof -
  have "\<And>sd'. (k, sd') \<in> set sessions \<Longrightarrow> sd' = sd"
    using assms by (metis map_of_is_SomeI option.inject)
  moreover have "(k, sd) \<in> set sessions" using assms(2) by (rule map_of_SomeD)
  ultimately have ex: "(\<exists>sd'. (k, sd') \<in> set sessions \<and> now - createdAt sd' > SESSION_TIMEOUT \<and> length (users sd') = 0)
       \<longleftrightarrow> (now - createdAt sd > SESSION_TIMEOUT \<and> length (users sd) = 0)"
    by blast
  show ?thesis
    unfolding cleanupInactiveSessions_def cleanup_fold_map_of ex using assms(2) by simp
qed

text \<open>
  C10. After any sequence of registry operations from the empty registry, every session
  in the registry has a \<open>participantCount\<close> equal to the size of its \<open>users\<close> map, and so
  has every \<open>Session\<close> value that \<open>getSession\<close> or \<open>listSessions\<close> returns.
\<close>

theorem participantCount_is_users_size:
  assumes "getSessionData (fold (apply_op gen) ops []) sid = Some sd"
  shows "participantCount sd = length (users sd)
       \<and> getSession (fold (apply_op gen) ops []) sid = Some (toSessionResponse sd)
       \<and> participantCount (toSessionResponse sd) = length (users sd)
       \<and> list_all (\<lambda>s. \<exists>k sd'. (k, sd') \<in> set (fold (apply_op gen) ops [])
                          \<and> s = toSessionResponse sd' \<and> participantCount s = length (users sd'))
            (fst (listSessions (fold (apply_op gen) ops []) limit offset))"
proof -
  let ?R = "fold (apply_op gen) ops []"
  have inv: "registry_consistent ?R"
    by (rule run_ops_consistent) (rule empty_registry_consistent)
  have sd: "map_of ?R sid = Some sd"
    using assms by (simp add: getSessionData_def)
  have c1: "participantCount sd = length (users sd)"
    using registry_consistent_lookup[OF inv sd] by (simp add: session_consistent_def)
  have c2: "getSession ?R sid = Some (toSessionResponse sd)"
    using sd by (simp add: getSession_def)
  have c3: "participantCount (toSessionResponse sd) = length (users sd)"
    using c1 by (simp add: toSessionResponse_def)
  have all: "\<And>k sd'. (k, sd') \<in> set ?R \<Longrightarrow> participantCount sd' = length (users sd')"
    using inv unfolding registry_consistent_def list_all_iff session_consistent_def by auto
  have c4: "list_all (\<lambda>s. \<exists>k sd'. (k, sd') \<in> set ?R
                          \<and> s = toSessionResponse sd' \<and> participantCount s = length (users sd'))
            (fst (listSessions ?R limit offset))"
    unfolding list_all_iff listSessions_def fst_conv
  proof
    fix s
    assume "s \<in> set (take limit (drop offset (map (\<lambda>(k, session). toSessionResponse session) ?R)))"
    then have "s \<in> set (map (\<lambda>(k, session). toSessionResponse session) ?R)"
      by (meson in_set_takeD in_set_dropD)
    then obtain k sd' where m: "(k, sd') \<in> set ?R" and s: "s = toSessionResponse sd'"
      by auto
    from all[OF m] have "participantCount s = length (users sd')"
      by (simp add: s toSessionResponse_def)
    with m s show "\<exists>k sd'. (k, sd') \<in> set ?R \<and> s = toSessionResponse sd'
                     \<and> participantCount s = length (users sd')"
      by blast
  qed
  from c1 c2 c3 c4 show ?thesis by blast
qed

theorem participantCount_is_users_size_witness:
  "getSessionData (fold (apply_op (\<lambda>u. ''#bf4040''))
       [CreateSession ''s1'' 0 ''javascript'',
        AddUserToSession ''s1'' ''ann'' ''Ann'' ''sock1'' 5,
        AddUserToSession ''s1'' ''bob'' ''Bob'' ''sock2'' 6,
        IncrementCodeVersion ''s1'',
        RemoveUserFromSession ''s1'' ''ann''] []) ''s1''
     = Some \<lparr>session_id = ''s1'', createdAt = 0, language = ''javascript'', participantCount = 1,
             users = [(''bob'', \<lparr>user_id = ''bob'', user_name = ''Bob'', color = ''#bf4040'',
                                 lastSeen = 6, socketId = ''sock2''\<rparr>)],
             codeVersion = 1\<rparr>
   \<and> getSession (fold (apply_op (\<lambda>u. ''#bf4040''))
       [CreateSession ''s1'' 0 ''javascript'',
        AddUserToSession ''s1'' ''ann'' ''Ann'' ''sock1'' 5,
        AddUserToSession ''s1'' ''bob'' ''Bob'' ''sock2'' 6,
        IncrementCodeVersion ''s1'',
        RemoveUserFromSession ''s1'' ''ann''] []) ''s1''
     = Some \<lparr>session_id = ''s1'', createdAt = 0, language = ''javascript'', participantCount = 1\<rparr>"
proof -
  have h: "getSessionData (fold (apply_op (\<lambda>u. ''#bf4040''))
       [CreateSession ''s1'' 0 ''javascript'',
        AddUserToSession ''s1'' ''ann'' ''Ann'' ''sock1'' 5,
        AddUserToSession ''s1'' ''bob'' ''Bob'' ''sock2'' 6,
        IncrementCodeVersion ''s1'',
        RemoveUserFromSession ''s1'' ''ann''] []) ''s1''
     = Some \<lparr>session_id = ''s1'', createdAt = 0, language = ''javascript'', participantCount = 1,
             users = [(''bob'', \<lparr>user_id = ''bob'', user_name = ''Bob'', color = ''#bf4040'',
                                 lastSeen = 6, socketId = ''sock2''\<rparr>)],
             codeVersion = 1\<rparr>"
    by (simp add: getSessionData_def createSession_def addUserToSession_def
        incrementCodeVersion_def removeUserFromSession_def Let_def)
  from participantCount_is_users_size[OF h, of 20 0] h show ?thesis
    by (simp add: toSessionResponse_def)
qed

text \<open>
  C8. At a sweep tick, a session of the registry whose age exceeds \<open>SESSION_TIMEOUT\<close>
  (30 minutes) and whose participant count is zero is deleted, so \<open>getSession\<close> then
  returns nothing; every other session (one with participants whatever its age, one
  not past the timeout whatever its participants) is kept as it is. The participant
  count of a consistent registry is at once the \<open>participantCount\<close> field and the size
  of the \<open>users\<close> map that the sweep tests.
\<close>

theorem cleanup_deletes_only_old_empty_sessions:
  assumes "registry_consistent sessions" and "getSessionData sessions sid = Some sd"
  shows "SESSION_TIMEOUT = 1800000
       \<and> (participantCount sd = 0) = (length (users sd) = 0)
       \<and> getSessionData (cleanupInactiveSessions sessions now) sid =
           (if now - createdAt sd > SESSION_TIMEOUT \<and> participantCount sd = 0 then None else Some sd)
       \<and> getSession (cleanupInactiveSessions sessions now) sid =
           (if now - createdAt sd > SESSION_TIMEOUT \<and> participantCount sd = 0 then None
            else getSession sessions sid)"
proof -
  have d: "distinct (map fst sessions)"
    using assms(1) by (simp add: registry_consistent_def)
  have sd: "map_of sessions sid = Some sd"
    using assms(2) by (simp add: getSessionData_def)
  have pc: "participantCount sd = length (users sd)"
    using registry_consistent_lookup[OF assms(1) sd] by (simp add: session_consistent_def)
  have l: "map_of (cleanupInactiveSessions sessions now) sid =
     (if now - createdAt sd > SESSION_TIMEOUT \<and> participantCount sd = 0 then None else Some sd)"
    unfolding cleanup_lookup[OF d sd] pc ..
  show ?thesis
    using l sd pc by (simp add: getSessionData_def getSession_def SESSION_TIMEOUT_def)
qed

theorem cleanup_deletes_only_old_empty_sessions_witness:
  "registry_consistent
     [(''old-empty'', \<lparr>session_id = ''old-empty'', createdAt = 0, language = ''python'',
                       participantCount = 0, users = [], codeVersion = 3\<rparr>),
      (''old-busy'', \<lparr>session_id = ''old-busy'', createdAt = 0, language = ''python'',
                      participantCount = 1,
                      users = [(''ann'', \<lparr>user_id = ''ann'', user_name = ''Ann'', color = ''#bf4040'',
                                          lastSeen = 7, socketId = ''sock1''\<rparr>)],
                      codeVersion = 0\<rparr>),
      (''young'', \<lparr>session_id = ''young'', createdAt = 1000000, language = ''python'',
                   participantCount = 0, users = [], codeVersion = 0\<rparr>)]
   \<and> map (getSession (cleanupInactiveSessions
       [(''old-empty'', \<lparr>session_id = ''old-empty'', createdAt = 0, language = ''python'',
                         participantCount = 0, users = [], codeVersion = 3\<rparr>),
        (''old-busy'', \<lparr>session_id = ''old-busy'', createdAt = 0, language = ''python'',
                        participantCount = 1,
                        users = [(''ann'', \<lparr>user_id = ''ann'', user_name = ''Ann'', color = ''#bf4040'',
                                            lastSeen = 7, socketId = ''sock1''\<rparr>)],
                        codeVersion = 0\<rparr>),
        (''young'', \<lparr>session_id = ''young'', createdAt = 1000000, language = ''python'',
                     participantCount = 0, users = [], codeVersion = 0\<rparr>)] 1800001))
       [''old-empty'', ''old-busy'', ''young'']
     = [None,
        Some \<lparr>session_id = ''old-busy'', createdAt = 0, language = ''python'', participantCount = 1\<rparr>,
        Some \<lparr>session_id = ''young'', createdAt = 1000000, language = ''python'', participantCount = 0\<rparr>]"
  (is "registry_consistent ?R \<and> _")
proof -
  have c: "registry_consistent ?R"
    by (simp add: registry_consistent_def session_consistent_def)
  have h1: "getSessionData ?R ''old-empty'' = Some (snd (?R ! 0))"
    and h2: "getSessionData ?R ''old-busy'' = Some (snd (?R ! 1))"
    and h3: "getSessionData ?R ''young'' = Some (snd (?R ! 2))"
    by (simp_all add: getSessionData_def)
  from cleanup_deletes_only_old_empty_sessions[OF c h1, of 1800001]
       cleanup_deletes_only_old_empty_sessions[OF c h2, of 1800001]
       cleanup_deletes_only_old_empty_sessions[OF c h3, of 1800001] c
  show ?thesis
    by (simp add: getSession_def toSessionResponse_def)
qed

section \<open>Properties of the gateway's handlers\<close>

text \<open>
  C4. A connection attempt whose handshake lacks \<open>sessionId\<close>, \<open>userId\<close> or \<open>userName\<close>
  (absent or empty), or whose session is not in the registry, is closed at once:
  \<open>client.disconnect()\<close> is the only thing the handler does. Nothing is emitted, so
  no user-joined event and no presence snapshot; the gateway and the registry stay as
  they were, so no presence record is created.
\<close>

theorem handleConnection_rejects_without_trace:
  assumes "\<not> truthy (query_sessionId handshake) \<or> \<not> truthy (query_userId handshake)
         \<or> \<not> truthy (query_userName handshake)
         \<or> getSession (sessionsService g) (or_empty (query_sessionId handshake)) = None"
  shows "handleConnection env g now client handshake = (g, [Disconnect client])"
  using assms by (auto simp: handleConnection_def Let_def)

theorem handleConnection_rejects_without_trace_witness:
  "handleConnection \<lparr>languages = [''javascript''], userColor = (\<lambda>u. ''#bf4040''), toISOString = (\<lambda>t. ''T'')\<rparr>
      initial_gateway 1000 ''sock1''
      \<lparr>query_sessionId = Some ''s1'', query_userId = Some ''ann'', query_userName = None\<rparr>
     = (initial_gateway, [Disconnect ''sock1''])
   \<and> handleConnection \<lparr>languages = [''javascript''], userColor = (\<lambda>u. ''#bf4040''), toISOString = (\<lambda>t. ''T'')\<rparr>
      initial_gateway 1000 ''sock1''
      \<lparr>query_sessionId = Some ''s1'', query_userId = Some ''ann'', query_userName = Some ''Ann''\<rparr>
     = (initial_gateway, [Disconnect ''sock1''])"
proof -
  have h1: "\<not> truthy (query_sessionId \<lparr>query_sessionId = Some ''s1'', query_userId = Some ''ann'', query_userName = None\<rparr>)
      \<or> \<not> truthy (query_userId \<lparr>query_sessionId = Some ''s1'', query_userId = Some ''ann'', query_userName = None\<rparr>)
      \<or> \<not> truthy (query_userName \<lparr>query_sessionId = Some ''s1'', query_userId = Some ''ann'', query_userName = None\<rparr>)
      \<or> getSession (sessionsService initial_gateway)
           (or_empty (query_sessionId \<lparr>query_sessionId = Some ''s1'', query_userId = Some ''ann'', query_userName = None\<rparr>)) = None"
    by (simp add: truthy_def)
  have h2: "\<not> truthy (query_sessionId \<lparr>query_sessionId = Some ''s1'', query_userId = Some ''ann'', query_userName = Some ''Ann''\<rparr>)
      \<or> \<not> truthy (query_userId \<lparr>query_sessionId = Some ''s1'', query_userId = Some ''ann'', query_userName = Some ''Ann''\<rparr>)
      \<or> \<not> truthy (query_userName \<lparr>query_sessionId = Some ''s1'', query_userId = Some ''ann'', query_userName = Some ''Ann''\<rparr>)
      \<or> getSession (sessionsService initial_gateway)
           (or_empty (query_sessionId \<lparr>query_sessionId = Some ''s1'', query_userId = Some ''ann'', query_userName = Some ''Ann''\<rparr>)) = None"
    by (simp add: initial_gateway_def getSession_def)
  from handleConnection_rejects_without_trace[OF h1] handleConnection_rejects_without_trace[OF h2]
  show ?thesis by simp
qed

text \<open>
  C3 as the code has it. An edit event that fails the membership checks gets a private
  error frame and changes nothing (no version bump, no broadcast): the error is
  \<open>INVALID_SESSION\<close> when the connection is bound and the envelope names another
  session, and \<open>USER_NOT_IN_SESSION\<close> when the connection has no binding. A cursor
  event that fails either check is dropped silently.
\<close>

theorem membership_violation:
  assumes "\<not> truthy (userSessions g client) \<or> \<not> truthy (socketUsers g client)
         \<or> or_empty (userSessions g client) \<noteq> msg_sessionId message"
  shows "handleCodeUpdate g now client message =
           (g, [Emit [client] ''error''
                  (if truthy (userSessions g client) \<and> truthy (socketUsers g client)
                   then error_message (or_empty (userSessions g client)) (or_empty (socketUsers g client))
                          ''INVALID_SESSION'' ''Session ID mismatch'' now
                   else error_message (msg_sessionId message) (or_empty (socketUsers g client))
                          ''USER_NOT_IN_SESSION'' ''User not connected to session'' now)])
       \<and> handleCursorUpdate g now client message = (g, [])"
  using assms by (auto simp: handleCodeUpdate_def handleCursorUpdate_def Let_def)

lemma example_gateway_value:
  "example_gateway =
     \<lparr>sessionsService =
        [(''s1'', \<lparr>session_id = ''s1'', createdAt = 1000, language = ''javascript'', participantCount = 2,
                   users = [(''ann'', \<lparr>user_id = ''ann'', user_name = ''Ann'', color = ''#bf4040'',
                                       lastSeen = 2000, socketId = ''sock1''\<rparr>),
                            (''bob'', \<lparr>user_id = ''bob'', user_name = ''Bob'', color = ''#bf4040'',
                                       lastSeen = 3000, socketId = ''sock2''\<rparr>)],
                   codeVersion = 0\<rparr>)],
      userSessions = [''sock1'' \<mapsto> ''s1'', ''sock2'' \<mapsto> ''s1''],
      socketUsers = [''sock1'' \<mapsto> ''ann'', ''sock2'' \<mapsto> ''bob''],
      cursorUpdateThrottle = Map.empty, codeUpdateThrottle = Map.empty,
      languageChangeThrottle = Map.empty,
      rooms = (\<lambda>room. [])(''s1'' := [''sock1'', ''sock2''])\<rparr>"
  by (simp add: example_gateway_def example_env_def handshake_of_def initial_gateway_def
      handleConnection_def createSession_def getSession_def addUserToSession_def truthy_def or_empty_def
      client_join_def Let_def fun_upd_twist)

theorem membership_violation_witness:
  "handleCodeUpdate example_gateway 5000 ''sock1'' (edit_message ''s2'' ''ann'' ''let x'' 7 5000) =
     (example_gateway,
      [Emit [''sock1''] ''error''
         (error_message ''s1'' ''ann'' ''INVALID_SESSION'' ''Session ID mismatch'' 5000)])
   \<and> handleCursorUpdate example_gateway 5000 ''sock1'' (edit_message ''s2'' ''ann'' ''let x'' 7 5000) =
     (example_gateway, [])
   \<and> handleCodeUpdate example_gateway 5000 ''sock9'' (edit_message ''s1'' ''eve'' ''let x'' 7 5000) =
     (example_gateway,
      [Emit [''sock9''] ''error''
         (error_message ''s1'' [] ''USER_NOT_IN_SESSION'' ''User not connected to session'' 5000)])
   \<and> handleCursorUpdate example_gateway 5000 ''sock9'' (edit_message ''s1'' ''eve'' ''let x'' 7 5000) =
     (example_gateway, [])"
proof -
  have h1: "\<not> truthy (userSessions example_gateway ''sock1'') \<or> \<not> truthy (socketUsers example_gateway ''sock1'')
      \<or> or_empty (userSessions example_gateway ''sock1'')
          \<noteq> msg_sessionId (edit_message ''s2'' ''ann'' ''let x'' 7 5000)"
    by (simp add: example_gateway_value edit_message_def or_empty_def)
  have h2: "\<not> truthy (userSessions example_gateway ''sock9'') \<or> \<not> truthy (socketUsers example_gateway ''sock9'')
      \<or> or_empty (userSessions example_gateway ''sock9'')
          \<noteq> msg_sessionId (edit_message ''s1'' ''eve'' ''let x'' 7 5000)"
    by (simp add: example_gateway_value truthy_def)
  have b: "truthy (userSessions example_gateway ''sock1'')" "truthy (socketUsers example_gateway ''sock1'')"
    "userSessions example_gateway ''sock1'' = Some ''s1''" "socketUsers example_gateway ''sock1'' = Some ''ann''"
    "\<not> truthy (userSessions example_gateway ''sock9'')" "socketUsers example_gateway ''sock9'' = None"
    by (simp_all add: example_gateway_value truthy_def)
  from membership_violation[OF h1, of 5000] membership_violation[OF h2, of 5000] b
  show ?thesis by (simp add: or_empty_def edit_message_def)
qed

text \<open>
  C3 as the spec states it fails: Ann's connection is bound to session \<open>s1\<close>, her edit
  names session \<open>s2\<close>, and the one frame she gets carries \<open>INVALID_SESSION\<close>, not
  \<open>USER_NOT_IN_SESSION\<close>.
\<close>

theorem session_mismatch_is_not_USER_NOT_IN_SESSION:
  "userSessions example_gateway ''sock1'' = Some ''s1''
   \<and> msg_sessionId (edit_message ''s2'' ''ann'' ''let x'' 7 5000) = ''s2''
   \<and> map error_code (snd (handleCodeUpdate example_gateway 5000 ''sock1''
                             (edit_message ''s2'' ''ann'' ''let x'' 7 5000)))
       = [Some ''INVALID_SESSION'']
   \<and> map error_code (snd (handleCodeUpdate example_gateway 5000 ''sock1''
                             (edit_message ''s2'' ''ann'' ''let x'' 7 5000)))
       \<noteq> [Some ''USER_NOT_IN_SESSION'']"
  by (simp add: example_gateway_value handleCodeUpdate_def edit_message_def truthy_def or_empty_def
      error_message_def Let_def)

subsection \<open>Bindings and rooms along a run\<close>

lemma bindings_in_rooms_cong:
  "userSessions g' = userSessions g \<Longrightarrow> socketUsers g' = socketUsers g \<Longrightarrow> rooms g' = rooms g
   \<Longrightarrow> bindings_in_rooms g' = bindings_in_rooms g"
  by (simp add: bindings_in_rooms_def)

lemma handleCodeUpdate_bindings:
  "userSessions (fst (handleCodeUpdate g now c m)) = userSessions g
   \<and> socketUsers (fst (handleCodeUpdate g now c m)) = socketUsers g
   \<and> rooms (fst (handleCodeUpdate g now c m)) = rooms g"
  by (simp add: handleCodeUpdate_def Let_def server_sockets_adapter_def split: prod.splits)

lemma handleCursorUpdate_bindings:
  "userSessions (fst (handleCursorUpdate g now c m)) = userSessions g
   \<and> socketUsers (fst (handleCursorUpdate g now c m)) = socketUsers g
   \<and> rooms (fst (handleCursorUpdate g now c m)) = rooms g"
  by (simp add: handleCursorUpdate_def Let_def)

lemma handleLanguageChange_bindings:
  "userSessions (fst (handleLanguageChange env g now c m)) = userSessions g
   \<and> socketUsers (fst (handleLanguageChange env g now c m)) = socketUsers g
   \<and> rooms (fst (handleLanguageChange env g now c m)) = rooms g"
  by (simp add: handleLanguageChange_def Let_def split: prod.splits)

lemma handleConnection_cases:
  "fst (handleConnection env g now c hs) = g
   \<or> (\<exists>ss'. fst (handleConnection env g now c hs) = g\<lparr>sessionsService := ss'\<rparr>)
   \<or> (\<exists>sid uid ss'. sid \<noteq> [] \<and> uid \<noteq> []
        \<and> fst (handleConnection env g now c hs) =
            client_join (g\<lparr>sessionsService := ss', userSessions := (userSessions g)(c \<mapsto> sid),
                          socketUsers := (socketUsers g)(c \<mapsto> uid)\<rparr>) c sid)"
proof (cases "\<not> truthy (query_sessionId hs) \<or> \<not> truthy (query_userId hs)
         \<or> \<not> truthy (query_userName hs)
         \<or> getSession (sessionsService g) (or_empty (query_sessionId hs)) = None")
  case True
  then show ?thesis by (auto simp: handleConnection_def Let_def)
next
  case False
  then obtain session where s: "getSession (sessionsService g) (or_empty (query_sessionId hs)) = Some session"
    by auto
  from False have ne: "or_empty (query_sessionId hs) \<noteq> []" "or_empty (query_userId hs) \<noteq> []"
    by (auto simp: truthy_def or_empty_def split: option.splits)
  obtain ss' r where a: "addUserToSession (userColor env) (sessionsService g)
      (or_empty (query_sessionId hs)) (or_empty (query_userId hs)) (or_empty (query_userName hs)) c now = (ss', r)"
    by (cases "addUserToSession (userColor env) (sessionsService g)
      (or_empty (query_sessionId hs)) (or_empty (query_userId hs)) (or_empty (query_userName hs)) c now")
  show ?thesis
  proof (cases r)
    case None
    with False s a have "fst (handleConnection env g now c hs) = g\<lparr>sessionsService := ss'\<rparr>"
      by (simp add: handleConnection_def Let_def)
    then show ?thesis by blast
  next
    case (Some user)
    with False s a have "fst (handleConnection env g now c hs) =
        client_join (g\<lparr>sessionsService := ss',
                       userSessions := (userSessions g)(c \<mapsto> or_empty (query_sessionId hs)),
                       socketUsers := (socketUsers g)(c \<mapsto> or_empty (query_userId hs))\<rparr>)
          c (or_empty (query_sessionId hs))"
      by (simp add: handleConnection_def Let_def)
    with ne show ?thesis by blast
  qed
qed

lemma handleConnection_bindings_in_rooms:
  assumes "bindings_in_rooms g"
  shows "bindings_in_rooms (fst (handleConnection env g now c hs))"
proof -
  let ?g = "fst (handleConnection env g now c hs)"
  from handleConnection_cases[of env g now c hs]
  consider (same) "?g = g" | (reg) ss' where "?g = g\<lparr>sessionsService := ss'\<rparr>"
    | (bound) sid uid ss' where "sid \<noteq> []" "uid \<noteq> []"
        "?g = client_join (g\<lparr>sessionsService := ss', userSessions := (userSessions g)(c \<mapsto> sid),
                          socketUsers := (socketUsers g)(c \<mapsto> uid)\<rparr>) c sid"
    by blast
  then show ?thesis
  proof cases
    case same
    then show ?thesis using assms by simp
  next
    case reg
    then show ?thesis using assms by (simp add: bindings_in_rooms_def)
  next
    case bound
    then show ?thesis using assms
      by (auto simp: bindings_in_rooms_def truthy_def client_join_def)
  qed
qed

lemma close_bindings_in_rooms:
  assumes "bindings_in_rooms g"
  shows "bindings_in_rooms (fst (handleDisconnect env (leave_all g c) now c))"
proof (cases "userSessions g c")
  case None
  then show ?thesis
    using assms
    by (auto simp: handleDisconnect_def leave_all_def bindings_in_rooms_def truthy_def)
next
  case (Some sid)
  with assms have "truthy (userSessions g c)" "truthy (socketUsers g c)"
    by (auto simp: bindings_in_rooms_def truthy_def)
  then show ?thesis
    using assms
    by (auto simp: handleDisconnect_def leave_all_def bindings_in_rooms_def Let_def)
qed

lemma step_bindings_in_rooms:
  assumes "bindings_in_rooms g"
  shows "bindings_in_rooms (fst (step env g e))"
proof (cases e)
  case (Pair now ev)
  show ?thesis
  proof (cases ev)
    case (Connect c hs)
    with Pair assms show ?thesis by (simp add: handleConnection_bindings_in_rooms)
  next
    case (Close c)
    with Pair assms show ?thesis by (simp add: close_bindings_in_rooms)
  next
    case (CodeUpdate c m)
    with Pair assms show ?thesis
      by (simp add: bindings_in_rooms_cong[of "fst (handleCodeUpdate g now c m)" g]
          handleCodeUpdate_bindings)
  next
    case (CursorUpdate c m)
    with Pair assms show ?thesis
      by (simp add: bindings_in_rooms_cong[of "fst (handleCursorUpdate g now c m)" g]
          handleCursorUpdate_bindings)
  next
    case (LanguageChange c m)
    with Pair assms show ?thesis
      by (simp add: bindings_in_rooms_cong[of "fst (handleLanguageChange env g now c m)" g]
          handleLanguageChange_bindings)
  next
    case (HttpCreateSession sid lang)
    with Pair assms show ?thesis by (simp add: bindings_in_rooms_def)
  next
    case (HttpDeleteSession sid)
    with Pair assms show ?thesis by (simp add: bindings_in_rooms_def)
  next
    case SweepTick
    with Pair assms show ?thesis by (simp add: bindings_in_rooms_def)
  qed
qed

lemma run_bindings_in_rooms:
  "bindings_in_rooms g \<Longrightarrow> bindings_in_rooms (fst (run env g evs))"
proof (induction evs arbitrary: g)
  case Nil
  then show ?case by simp
next
  case (Cons e es)
  from Cons.IH[OF step_bindings_in_rooms[OF Cons.prems, of env e]]
  show ?case by (simp add: split_beta Let_def)
qed

lemma initial_bindings_in_rooms: "bindings_in_rooms initial_gateway"
  by (simp add: bindings_in_rooms_def initial_gateway_def)

lemma accepted_language_change:
  assumes "language_change_accepted env g now client message"
  shows "\<exists>g' msg. handleLanguageChange env g now client message =
           (g', [Emit (rooms g (msg_sessionId message)) ''language-changed'' msg])"
  using assms
  by (auto simp: language_change_accepted_def handleLanguageChange_def Let_def server_to_def
      updateSessionLanguage_def getSessionData_def split: prod.splits option.splits)

subsection \<open>The accepted edit\<close>

lemma handleCodeUpdate_not_passed:
  assumes "\<not> (truthy (userSessions g c) \<and> truthy (socketUsers g c)
             \<and> or_empty (userSessions g c) = msg_sessionId m
             \<and> \<not> now - or_zero (codeUpdateThrottle g (or_empty (socketUsers g c))) < 20)"
  shows "fst (handleCodeUpdate g now c m) = g
       \<and> (snd (handleCodeUpdate g now c m) = []
          \<or> (\<exists>msg. snd (handleCodeUpdate g now c m) = [Emit [c] ''error'' msg]))"
  using assms by (auto simp: handleCodeUpdate_def Let_def)

lemma handleCodeUpdate_passed:
  assumes "truthy (userSessions g c)" and "truthy (socketUsers g c)"
      and "or_empty (userSessions g c) = msg_sessionId m"
      and "\<not> now - or_zero (codeUpdateThrottle g (or_empty (socketUsers g c))) < 20"
  shows "handleCodeUpdate g now c m =
     (if snd (incrementCodeVersion (sessionsService g) (msg_sessionId m)) = - 1
      then (g\<lparr>codeUpdateThrottle := (codeUpdateThrottle g)(or_empty (socketUsers g c) \<mapsto> now),
              sessionsService := fst (incrementCodeVersion (sessionsService g) (msg_sessionId m))\<rparr>,
            [Emit [c] ''error''
               (error_message (msg_sessionId m) (or_empty (socketUsers g c)) ''SESSION_NOT_FOUND''
                  ''Session does not exist'' now)])
      else (g\<lparr>codeUpdateThrottle := (codeUpdateThrottle g)(or_empty (socketUsers g c) \<mapsto> now),
              sessionsService :=
                updateUserLastSeen (fst (incrementCodeVersion (sessionsService g) (msg_sessionId m)))
                  (msg_sessionId m) (or_empty (socketUsers g c)) now\<rparr>,
            [Throw ''TypeError'']))"
  using assms by (simp add: handleCodeUpdate_def Let_def split_beta server_sockets_adapter_def)

lemma handleCodeUpdate_actions:
  "snd (handleCodeUpdate g now c m) = []
   \<or> snd (handleCodeUpdate g now c m) = [Throw ''TypeError'']
   \<or> (\<exists>msg. snd (handleCodeUpdate g now c m) = [Emit [c] ''error'' msg])"
proof (cases "truthy (userSessions g c) \<and> truthy (socketUsers g c)
             \<and> or_empty (userSessions g c) = msg_sessionId m
             \<and> \<not> now - or_zero (codeUpdateThrottle g (or_empty (socketUsers g c))) < 20")
  case False
  from handleCodeUpdate_not_passed[OF False] show ?thesis by blast
next
  case True
  then have "handleCodeUpdate g now c m =
     (if snd (incrementCodeVersion (sessionsService g) (msg_sessionId m)) = - 1
      then (g\<lparr>codeUpdateThrottle := (codeUpdateThrottle g)(or_empty (socketUsers g c) \<mapsto> now),
              sessionsService := fst (incrementCodeVersion (sessionsService g) (msg_sessionId m))\<rparr>,
            [Emit [c] ''error''
               (error_message (msg_sessionId m) (or_empty (socketUsers g c)) ''SESSION_NOT_FOUND''
                  ''Session does not exist'' now)])
      else (g\<lparr>codeUpdateThrottle := (codeUpdateThrottle g)(or_empty (socketUsers g c) \<mapsto> now),
              sessionsService :=
                updateUserLastSeen (fst (incrementCodeVersion (sessionsService g) (msg_sessionId m)))
                  (msg_sessionId m) (or_empty (socketUsers g c)) now\<rparr>,
            [Throw ''TypeError'']))"
    by (intro handleCodeUpdate_passed) simp_all
  then show ?thesis by simp
qed

lemma accepted_code_update:
  assumes "code_update_accepted g now client message"
  shows "snd (handleCodeUpdate g now client message) = [Throw ''TypeError'']"
proof -
  from assms have p: "truthy (userSessions g client)" "truthy (socketUsers g client)"
    "or_empty (userSessions g client) = msg_sessionId message"
    "\<not> now - or_zero (codeUpdateThrottle g (or_empty (socketUsers g client))) < 20"
    and v: "snd (incrementCodeVersion (sessionsService g) (msg_sessionId message)) \<noteq> - 1"
    by (simp_all add: code_update_accepted_def)
  show ?thesis unfolding handleCodeUpdate_passed[OF p] using v by simp
qed

text \<open>
  C2. In every state the gateway reaches, an accepted edit is delivered to nobody: the
  handler throws at its log line, before \<open>client.to(sessionId).emit\<close>, so its only
  action is the exception and no connection of the room receives the edit. An accepted
  language change is emitted once, to all members of the room, the sender and every
  other connection bound to the session among them.
\<close>

theorem accepted_edit_reaches_nobody:
  assumes "g = fst (run env initial_gateway evs)"
  shows "(code_update_accepted g now client message \<longrightarrow>
           snd (handleCodeUpdate g now client message) = [Throw ''TypeError'']
           \<and> concat (map recipients_of (snd (handleCodeUpdate g now client message))) = [])
       \<and> (language_change_accepted env g now client message \<longrightarrow>
           (\<exists>g' msg recipients.
              handleLanguageChange env g now client message = (g', [Emit recipients ''language-changed'' msg])
              \<and> set recipients = set (rooms g (msg_sessionId message))
              \<and> client \<in> set recipients
              \<and> (\<forall>c. userSessions g c = Some (msg_sessionId message) \<longrightarrow> c \<in> set recipients)))"
proof -
  have inv: "bindings_in_rooms g"
    unfolding assms by (rule run_bindings_in_rooms) (rule initial_bindings_in_rooms)
  have members: "\<And>c. userSessions g c = Some (msg_sessionId message)
                   \<Longrightarrow> c \<in> set (rooms g (msg_sessionId message))"
    using inv by (simp add: bindings_in_rooms_def)
  have edit: "snd (handleCodeUpdate g now client message) = [Throw ''TypeError'']
           \<and> concat (map recipients_of (snd (handleCodeUpdate g now client message))) = []"
    if acc: "code_update_accepted g now client message"
    using accepted_code_update[OF acc] by simp
  have lang: "\<exists>g' msg recipients.
              handleLanguageChange env g now client message = (g', [Emit recipients ''language-changed'' msg])
              \<and> set recipients = set (rooms g (msg_sessionId message))
              \<and> client \<in> set recipients
              \<and> (\<forall>c. userSessions g c = Some (msg_sessionId message) \<longrightarrow> c \<in> set recipients)"
    if acc: "language_change_accepted env g now client message"
  proof -
    from accepted_language_change[OF acc] obtain g' msg where
      h: "handleLanguageChange env g now client message =
           (g', [Emit (rooms g (msg_sessionId message)) ''language-changed'' msg])"
      by blast
    from acc have "userSessions g client = Some (msg_sessionId message)"
      by (auto simp: language_change_accepted_def truthy_def or_empty_def split: option.splits)
    then have "client \<in> set (rooms g (msg_sessionId message))"
      by (rule members)
    with h members show ?thesis by blast
  qed
  from edit lang show ?thesis by blast
qed

theorem accepted_edit_reaches_nobody_witness:
  "example_gateway = fst (run example_env initial_gateway
            [(1000, HttpCreateSession ''s1'' ''javascript''),
             (2000, Connect ''sock1'' (handshake_of ''s1'' ''ann'' ''Ann'')),
             (3000, Connect ''sock2'' (handshake_of ''s1'' ''bob'' ''Bob''))])
   \<and> rooms example_gateway ''s1'' = [''sock1'', ''sock2'']
   \<and> code_update_accepted example_gateway 5000 ''sock1'' (edit_message ''s1'' ''ann'' ''let x'' 7 5000)
   \<and> language_change_accepted example_env example_gateway 5000 ''sock1''
        (language_message ''s1'' ''ann'' ''python'' 5000)
   \<and> snd (handleCodeUpdate example_gateway 5000 ''sock1'' (edit_message ''s1'' ''ann'' ''let x'' 7 5000))
       = [Throw ''TypeError'']
   \<and> concat (map recipients_of
        (snd (handleCodeUpdate example_gateway 5000 ''sock1'' (edit_message ''s1'' ''ann'' ''let x'' 7 5000))))
       = []
   \<and> (\<exists>g' msg recipients.
         handleLanguageChange example_env example_gateway 5000 ''sock1''
            (language_message ''s1'' ''ann'' ''python'' 5000)
           = (g', [Emit recipients ''language-changed'' msg])
         \<and> set recipients = {''sock1'', ''sock2''})"
proof -
  have r: "example_gateway = fst (run example_env initial_gateway
            [(1000, HttpCreateSession ''s1'' ''javascript''),
             (2000, Connect ''sock1'' (handshake_of ''s1'' ''ann'' ''Ann'')),
             (3000, Connect ''sock2'' (handshake_of ''s1'' ''bob'' ''Bob''))])"
    by (rule example_gateway_def)
  have a1: "code_update_accepted example_gateway 5000 ''sock1'' (edit_message ''s1'' ''ann'' ''let x'' 7 5000)"
    by (simp add: code_update_accepted_def example_gateway_value edit_message_def truthy_def
        or_empty_def or_zero_def incrementCodeVersion_def)
  have a2: "language_change_accepted example_env example_gateway 5000 ''sock1''
        (language_message ''s1'' ''ann'' ''python'' 5000)"
    by (simp add: language_change_accepted_def example_gateway_value language_message_def truthy_def
        or_empty_def or_zero_def is_language_def example_env_def getSessionData_def)
  have rooms1: "rooms example_gateway ''s1'' = [''sock1'', ''sock2'']"
    by (simp add: example_gateway_value)
  have rooms2: "set [''sock1'', ''sock2''] = {''sock1'', ''sock2''}"
    by simp
  have m: "msg_sessionId (language_message ''s1'' ''ann'' ''python'' 5000) = ''s1''"
    by (simp add: language_message_def)
  note edit = accepted_edit_reaches_nobody[OF r, of 5000 "''sock1''" "edit_message ''s1'' ''ann'' ''let x'' 7 5000",
        THEN conjunct1, THEN mp, OF a1]
  note lang = accepted_edit_reaches_nobody[OF r, of 5000 "''sock1''" "language_message ''s1'' ''ann'' ''python'' 5000",
        THEN conjunct2, THEN mp, OF a2]
  from lang obtain g2 msg2 rs2 where
    l1: "handleLanguageChange example_env example_gateway 5000 ''sock1''
            (language_message ''s1'' ''ann'' ''python'' 5000)
           = (g2, [Emit rs2 ''language-changed'' msg2])"
    and l2: "set rs2 = {''sock1'', ''sock2''}"
    unfolding m rooms1 rooms2 by (elim exE conjE) (rule that)
  have c2: "\<exists>g' msg recipients.
         handleLanguageChange example_env example_gateway 5000 ''sock1''
            (language_message ''s1'' ''ann'' ''python'' 5000)
           = (g', [Emit recipients ''language-changed'' msg])
         \<and> set recipients = {''sock1'', ''sock2''}"
    using l1 l2 by (intro exI conjI)
  show ?thesis
    using r rooms1 a1 a2 edit[THEN conjunct1] edit[THEN conjunct2] c2 by (intro conjI)
qed

section \<open>No edit is ever broadcast\<close>

lemma no_code_update_versions:
  "filter is_code_update acts = [] \<Longrightarrow> broadcast_versions sid acts = []"
proof (induction acts)
  case Nil
  then show ?case by (simp add: broadcast_versions_def List.map_filter_def)
next
  case (Cons a acts)
  then show ?case
    by (cases a) (auto simp: broadcast_versions_def List.map_filter_def split: if_splits)
qed

lemma no_code_update_edits:
  "filter is_code_update acts = [] \<Longrightarrow> filter (is_edit_by u) acts = []"
proof (induction acts)
  case Nil
  then show ?case by simp
next
  case (Cons a acts)
  then show ?case by (cases a) (auto split: if_splits)
qed

lemma handleConnection_no_code_update:
  "filter is_code_update (snd (handleConnection env g now c hs)) = []"
  by (simp add: handleConnection_def Let_def split_beta broadcastPresenceUpdate_def
      split: option.splits)

lemma handleDisconnect_no_code_update:
  "filter is_code_update (snd (handleDisconnect env g now c)) = []"
  by (simp add: handleDisconnect_def Let_def broadcastPresenceUpdate_def)

lemma handleCursorUpdate_no_code_update:
  "filter is_code_update (snd (handleCursorUpdate g now c m)) = []"
  by (simp add: handleCursorUpdate_def Let_def)

lemma handleLanguageChange_no_code_update:
  "filter is_code_update (snd (handleLanguageChange env g now c m)) = []"
  by (simp add: handleLanguageChange_def Let_def split_beta)

lemma handleCodeUpdate_no_code_update:
  "filter is_code_update (snd (handleCodeUpdate g now c m)) = []"
  using handleCodeUpdate_actions[of g now c m] by auto

lemma step_no_code_update:
  "filter is_code_update (snd (step env g (now, ev))) = []"
  by (cases ev)
    (simp_all add: handleConnection_no_code_update handleDisconnect_no_code_update
      handleCursorUpdate_no_code_update handleLanguageChange_no_code_update
      handleCodeUpdate_no_code_update)

lemma run_no_code_update:
  "filter is_code_update (snd (run env g evs)) = []"
proof (induction evs arbitrary: g)
  case Nil
  then show ?case by simp
next
  case (Cons e es)
  obtain now ev where e: "e = (now, ev)" by (cases e)
  show ?case
    using step_no_code_update[of env g now ev] Cons.IH[of "fst (step env g (now, ev))"]
    by (simp add: e split_beta Let_def)
qed

section \<open>The version counter\<close>

lemma cv_updateUserLastSeen:
  "map_option codeVersion (map_of (updateUserLastSeen ss s u t) sid)
     = map_option codeVersion (map_of ss sid)"
  by (cases "sid = s") (auto simp: updateUserLastSeen_def update_conv' split: option.splits)

lemma cv_incrementCodeVersion:
  "map_option codeVersion (map_of (fst (incrementCodeVersion ss s)) sid)
     = (if sid = s then map_option (\<lambda>sd. codeVersion sd + 1) (map_of ss s)
        else map_option codeVersion (map_of ss sid))"
  by (auto simp: incrementCodeVersion_def update_conv' split: option.splits)

lemma snd_incrementCodeVersion:
  "snd (incrementCodeVersion ss s) = (case map_of ss s of None \<Rightarrow> - 1 | Some sd \<Rightarrow> codeVersion sd + 1)"
  by (simp add: incrementCodeVersion_def split: option.splits)

lemma cv_fresh_session:
  "map_option codeVersion (map_of (fst (createSession ss s t l)) s) = Some 0"
  by (simp add: createSession_def Let_def update_conv')

lemma version_of_registry:
  "version_of (g\<lparr>sessionsService := ss\<rparr>) sid = map_option codeVersion (map_of ss sid)"
  "version_of g sid = map_option codeVersion (map_of (sessionsService g) sid)"
  by (simp_all add: version_of_def getSessionData_def)

lemma accepted_code_update_version:
  assumes acc: "code_update_accepted g now client message"
      and v: "version_of g (msg_sessionId message) = Some v"
  shows "version_of (fst (handleCodeUpdate g now client message)) (msg_sessionId message) = Some (v + 1)"
proof -
  from v obtain sd where sd: "map_of (sessionsService g) (msg_sessionId message) = Some sd"
    and cv: "codeVersion sd = v"
    by (auto simp: version_of_registry)
  have inc: "snd (incrementCodeVersion (sessionsService g) (msg_sessionId message)) = v + 1"
    using sd cv by (simp add: snd_incrementCodeVersion)
  from acc have p: "truthy (userSessions g client)" "truthy (socketUsers g client)"
    "or_empty (userSessions g client) = msg_sessionId message"
    "\<not> now - or_zero (codeUpdateThrottle g (or_empty (socketUsers g client))) < 20"
    "v + 1 \<noteq> - 1"
    unfolding code_update_accepted_def inc by simp_all
  show ?thesis
    unfolding handleCodeUpdate_passed[OF p(1-4)] inc using p(5) sd cv
    by (simp add: version_of_registry cv_updateUserLastSeen cv_incrementCodeVersion)
qed

text \<open>
  C1. A session is created with version counter 0, and an accepted edit that finds the
  counter at \<open>v\<close> leaves it at \<open>v + 1\<close>, whatever version the sender claims. The handler
  then throws at its log line, before it emits: the exception is its only action. So
  whatever events the gateway and the registry handle, from whatever state, no
  \<open>code-update\<close> is broadcast: the versions broadcast for a session are the empty
  sequence, not 1, 2, 3, ..., while each accepted edit has consumed a version.
\<close>

theorem accepted_edit_consumes_version_without_broadcast:
  "version_of (g0\<lparr>sessionsService := fst (createSession (sessionsService g0) sid0 t lang)\<rparr>) sid0 = Some 0
   \<and> (code_update_accepted g now client message
        \<and> version_of g (msg_sessionId message) = Some v \<longrightarrow>
          version_of (fst (handleCodeUpdate g now client message)) (msg_sessionId message) = Some (v + 1)
          \<and> snd (handleCodeUpdate g now client message) = [Throw ''TypeError''])
   \<and> broadcast_versions sid (snd (run env g' evs)) = []"
proof -
  have a: "version_of (g0\<lparr>sessionsService := fst (createSession (sessionsService g0) sid0 t lang)\<rparr>) sid0
             = Some 0"
    by (simp add: version_of_registry cv_fresh_session)
  have b: "broadcast_versions sid (snd (run env g' evs)) = []"
    by (rule no_code_update_versions) (rule run_no_code_update)
  from a b accepted_code_update_version[of g now client message v]
    accepted_code_update[of g now client message]
  show ?thesis by blast
qed

theorem accepted_edit_consumes_version_without_broadcast_witness:
  "version_of
      (initial_gateway\<lparr>sessionsService :=
         fst (createSession (sessionsService initial_gateway) ''s1'' 1000 ''javascript'')\<rparr>) ''s1''
     = Some 0
   \<and> code_update_accepted example_gateway 5000 ''sock1'' (edit_message ''s1'' ''ann'' ''let a'' 7 5000)
   \<and> version_of example_gateway ''s1'' = Some 0
   \<and> version_of (fst (handleCodeUpdate example_gateway 5000 ''sock1''
                         (edit_message ''s1'' ''ann'' ''let a'' 7 5000))) ''s1''
     = Some 1
   \<and> snd (handleCodeUpdate example_gateway 5000 ''sock1'' (edit_message ''s1'' ''ann'' ''let a'' 7 5000))
     = [Throw ''TypeError'']
   \<and> code_update_accepted example_gateway 5000 ''sock1'' (null_edit_message ''s1'' ''ann'' 5000)
   \<and> version_of (fst (handleCodeUpdate example_gateway 5000 ''sock1''
                         (null_edit_message ''s1'' ''ann'' 5000))) ''s1''
     = Some 1
   \<and> broadcast_versions ''s1''
        (snd (run example_env
                (initial_gateway\<lparr>sessionsService :=
                   fst (createSession (sessionsService initial_gateway) ''s1'' 1000 ''javascript'')\<rparr>)
                example_trace))
     = []
   \<and> version_of
        (fst (run example_env
                (initial_gateway\<lparr>sessionsService :=
                   fst (createSession (sessionsService initial_gateway) ''s1'' 1000 ''javascript'')\<rparr>)
                example_trace)) ''s1''
     = Some 3"
proof -
  let ?g0 = "initial_gateway\<lparr>sessionsService :=
                   fst (createSession (sessionsService initial_gateway) ''s1'' 1000 ''javascript'')\<rparr>"
  let ?m = "edit_message ''s1'' ''ann'' ''let a'' 7 5000"
  let ?n = "null_edit_message ''s1'' ''ann'' 5000"
  have a: "code_update_accepted example_gateway 5000 ''sock1'' ?m"
    by (simp add: code_update_accepted_def example_gateway_value edit_message_def truthy_def
        or_empty_def or_zero_def incrementCodeVersion_def)
  have an: "code_update_accepted example_gateway 5000 ''sock1'' ?n"
    by (simp add: code_update_accepted_def example_gateway_value null_edit_message_def truthy_def
        or_empty_def or_zero_def incrementCodeVersion_def)
  have v: "version_of example_gateway ''s1'' = Some 0"
    by (simp add: version_of_registry example_gateway_value)
  have s: "msg_sessionId ?m = ''s1''" "msg_sessionId ?n = ''s1''"
    by (simp_all add: edit_message_def null_edit_message_def)
  have f: "version_of (fst (run example_env ?g0 example_trace)) ''s1'' = Some 3"
    by code_simp
  note t = accepted_edit_consumes_version_without_broadcast[where ?g0.0 = initial_gateway
      and ?sid0.0 = "''s1''" and t = 1000 and lang = "''javascript''" and g = example_gateway
      and now = 5000 and client = "''sock1''" and message = ?m and v = 0
      and sid = "''s1''" and env = example_env and g' = ?g0 and evs = example_trace]
  note tn = accepted_edit_consumes_version_without_broadcast[where g = example_gateway
      and now = 5000 and client = "''sock1''" and message = ?n and v = 0,
      THEN conjunct2, THEN conjunct1, THEN mp, OF conjI, OF an, unfolded s, OF v, THEN conjunct1]
  note e = t[THEN conjunct2, THEN conjunct1, THEN mp, OF conjI, OF a, unfolded s, OF v]
  have e1: "version_of (fst (handleCodeUpdate example_gateway 5000 ''sock1'' ?m)) ''s1'' = Some 1"
    using e[THEN conjunct1] by simp
  have n1: "version_of (fst (handleCodeUpdate example_gateway 5000 ''sock1'' ?n)) ''s1'' = Some 1"
    using tn by simp
  from t[THEN conjunct1] a v e1 e[THEN conjunct2] an n1
    t[THEN conjunct2, THEN conjunct2] f
  show ?thesis by (intro conjI)
qed

section \<open>The throttles along a run\<close>

lemma handleConnection_throttles:
  "codeUpdateThrottle (fst (handleConnection env g now c hs)) = codeUpdateThrottle g
   \<and> languageChangeThrottle (fst (handleConnection env g now c hs)) = languageChangeThrottle g"
  using handleConnection_cases[of env g now c hs]
  by (elim disjE exE conjE) (simp_all add: client_join_def)

lemma close_throttles:
  assumes "socketUsers g c \<noteq> Some u"
  shows "codeUpdateThrottle (fst (handleDisconnect env (leave_all g c) now c)) u = codeUpdateThrottle g u
       \<and> languageChangeThrottle (fst (handleDisconnect env (leave_all g c) now c)) u
           = languageChangeThrottle g u"
proof (cases "truthy (userSessions g c) \<and> truthy (socketUsers g c)")
  case False
  then show ?thesis by (auto simp: handleDisconnect_def leave_all_def)
next
  case True
  with assms have "or_empty (socketUsers g c) \<noteq> u"
    by (auto simp: truthy_def or_empty_def split: option.splits)
  with True show ?thesis by (simp add: handleDisconnect_def leave_all_def Let_def)
qed

lemma handleCursorUpdate_throttles:
  "codeUpdateThrottle (fst (handleCursorUpdate g now c m)) = codeUpdateThrottle g
   \<and> languageChangeThrottle (fst (handleCursorUpdate g now c m)) = languageChangeThrottle g"
  by (simp add: handleCursorUpdate_def Let_def)

lemma handleCodeUpdate_throttles:
  "(codeUpdateThrottle (fst (handleCodeUpdate g now c m)) = codeUpdateThrottle g
    \<or> (codeUpdateThrottle (fst (handleCodeUpdate g now c m))
          = (codeUpdateThrottle g)(or_empty (socketUsers g c) \<mapsto> now)
        \<and> \<not> now - or_zero (codeUpdateThrottle g (or_empty (socketUsers g c))) < 20))
   \<and> languageChangeThrottle (fst (handleCodeUpdate g now c m)) = languageChangeThrottle g"
proof (cases "truthy (userSessions g c) \<and> truthy (socketUsers g c)
             \<and> or_empty (userSessions g c) = msg_sessionId m
             \<and> \<not> now - or_zero (codeUpdateThrottle g (or_empty (socketUsers g c))) < 20")
  case False
  from handleCodeUpdate_not_passed[OF False] show ?thesis by simp
next
  case True
  then have p: "truthy (userSessions g c)" "truthy (socketUsers g c)"
    "or_empty (userSessions g c) = msg_sessionId m"
    "\<not> now - or_zero (codeUpdateThrottle g (or_empty (socketUsers g c))) < 20"
    by simp_all
  show ?thesis unfolding handleCodeUpdate_passed[OF p] using p(4) by simp
qed

lemma handleLanguageChange_throttles:
  "(languageChangeThrottle (fst (handleLanguageChange env g now c m)) = languageChangeThrottle g
    \<or> (languageChangeThrottle (fst (handleLanguageChange env g now c m))
          = (languageChangeThrottle g)(or_empty (socketUsers g c) \<mapsto> now)
        \<and> \<not> now - or_zero (languageChangeThrottle g (or_empty (socketUsers g c))) < 5000))
   \<and> codeUpdateThrottle (fst (handleLanguageChange env g now c m)) = codeUpdateThrottle g"
  by (simp add: handleLanguageChange_def Let_def split_beta)

lemma throttle_grows:
  assumes "th' = th \<or> (th' = th(k \<mapsto> now) \<and> \<not> now - or_zero (th k) < d)" and "0 \<le> d"
      and "th u = Some (l::int)"
  shows "\<exists>l'. th' u = Some l' \<and> l \<le> l'"
  using assms by (cases "k = u") (auto simp: or_zero_def)

lemma step_throttles:
  assumes "\<not> is_close_of g u ev"
  shows "(\<forall>l. codeUpdateThrottle g u = Some l \<longrightarrow>
            (\<exists>l'. codeUpdateThrottle (fst (step env g (now, ev))) u = Some l' \<and> l \<le> l'))
       \<and> (\<forall>l. languageChangeThrottle g u = Some l \<longrightarrow>
            (\<exists>l'. languageChangeThrottle (fst (step env g (now, ev))) u = Some l' \<and> l \<le> l'))"
proof (cases ev)
  case (Connect c hs)
  then show ?thesis using handleConnection_throttles[of env g now c hs] by simp
next
  case (Close c)
  with assms have "socketUsers g c \<noteq> Some u" by simp
  from close_throttles[OF this, of env now] Close show ?thesis by simp
next
  case (CodeUpdate c m)
  note h = handleCodeUpdate_throttles[of g now c m]
  have "\<exists>l'. codeUpdateThrottle (fst (handleCodeUpdate g now c m)) u = Some l' \<and> l \<le> l'"
    if "codeUpdateThrottle g u = Some l" for l
    by (rule throttle_grows[OF h[THEN conjunct1] _ that]) simp
  with h CodeUpdate show ?thesis by simp
next
  case (CursorUpdate c m)
  then show ?thesis using handleCursorUpdate_throttles[of g now c m] by simp
next
  case (LanguageChange c m)
  note h = handleLanguageChange_throttles[of env g now c m]
  have "\<exists>l'. languageChangeThrottle (fst (handleLanguageChange env g now c m)) u = Some l' \<and> l \<le> l'"
    if "languageChangeThrottle g u = Some l" for l
    by (rule throttle_grows[OF h[THEN conjunct1] _ that]) simp
  with h LanguageChange show ?thesis by simp
next
  case (HttpCreateSession s lang)
  then show ?thesis by simp
next
  case (HttpDeleteSession s)
  then show ?thesis by simp
next
  case SweepTick
  then show ?thesis by simp
qed

lemma run_throttles:
  assumes "connections_stay_open env u g evs"
  shows "(\<forall>l. codeUpdateThrottle g u = Some l \<longrightarrow>
            (\<exists>l'. codeUpdateThrottle (fst (run env g evs)) u = Some l' \<and> l \<le> l'))
       \<and> (\<forall>l. languageChangeThrottle g u = Some l \<longrightarrow>
            (\<exists>l'. languageChangeThrottle (fst (run env g evs)) u = Some l' \<and> l \<le> l'))"
  using assms
proof (induction evs arbitrary: g)
  case Nil
  then show ?case by simp
next
  case (Cons e es)
  obtain now ev where e: "e = (now, ev)" by (cases e)
  let ?g1 = "fst (step env g (now, ev))"
  from Cons.prems e have open1: "\<not> is_close_of g u ev" and rest: "connections_stay_open env u ?g1 es"
    by simp_all
  note s = step_throttles[OF open1, of env now]
  note ih = Cons.IH[OF rest]
  have r: "fst (run env g (e # es)) = fst (run env ?g1 es)"
    by (simp add: e split_beta Let_def)
  have c: "\<exists>l'. codeUpdateThrottle (fst (run env ?g1 es)) u = Some l' \<and> l \<le> l'"
    if "codeUpdateThrottle g u = Some l" for l
  proof -
    from s that obtain l1 where l1: "codeUpdateThrottle ?g1 u = Some l1" "l \<le> l1" by blast
    from ih l1(1) obtain l2 where "codeUpdateThrottle (fst (run env ?g1 es)) u = Some l2" "l1 \<le> l2"
      by blast
    with l1(2) show ?thesis by auto
  qed
  have d: "\<exists>l'. languageChangeThrottle (fst (run env ?g1 es)) u = Some l' \<and> l \<le> l'"
    if "languageChangeThrottle g u = Some l" for l
  proof -
    from s that obtain l1 where l1: "languageChangeThrottle ?g1 u = Some l1" "l \<le> l1" by blast
    from ih l1(1) obtain l2 where "languageChangeThrottle (fst (run env ?g1 es)) u = Some l2" "l1 \<le> l2"
      by blast
    with l1(2) show ?thesis by auto
  qed
  from c d show ?case unfolding r by blast
qed

section \<open>The edit throttle\<close>

lemma accepted_code_update_throttle:
  assumes "code_update_accepted g now client message"
  shows "codeUpdateThrottle (fst (handleCodeUpdate g now client message)) (or_empty (socketUsers g client))
           = Some now"
proof -
  from assms have p: "truthy (userSessions g client)" "truthy (socketUsers g client)"
    "or_empty (userSessions g client) = msg_sessionId message"
    "\<not> now - or_zero (codeUpdateThrottle g (or_empty (socketUsers g client))) < 20"
    by (simp_all add: code_update_accepted_def)
  show ?thesis unfolding handleCodeUpdate_passed[OF p] by simp
qed

lemma same_user_truthy:
  assumes "truthy (socketUsers g0 c0)" and "or_empty (socketUsers g c) = or_empty (socketUsers g0 c0)"
  shows "truthy (socketUsers g c)"
  using assms by (auto simp: truthy_def or_empty_def split: option.splits)

text \<open>
  An edit of Ann is accepted at 5000. Her next event, 5 ms later, names session \<open>s2\<close>:
  she is sent an \<open>INVALID_SESSION\<close> error frame. And when Ann has a second connection
  that closes 2 ms after her accepted edit, her next edit, 5 ms after the accepted one,
  is not dropped: it consumes version 2.
\<close>

theorem edit_within_20ms_is_not_always_dropped:
  "code_update_accepted example_gateway 5000 ''sock1'' (edit_message ''s1'' ''ann'' ''let a'' 1 5000)
   \<and> map error_code
        (snd (handleCodeUpdate
                (fst (handleCodeUpdate example_gateway 5000 ''sock1''
                        (edit_message ''s1'' ''ann'' ''let a'' 1 5000)))
                5005 ''sock1'' (edit_message ''s2'' ''ann'' ''let ab'' 2 5005)))
       = [Some ''INVALID_SESSION'']
   \<and> code_update_accepted two_connections 5000 ''sock1'' (edit_message ''s1'' ''ann'' ''let a'' 1 5000)
   \<and> version_of
        (fst (run example_env two_connections
                [(5000, CodeUpdate ''sock1'' (edit_message ''s1'' ''ann'' ''let a'' 1 5000)),
                 (5002, Close ''sock3'')])) ''s1''
       = Some 1
   \<and> version_of
        (fst (run example_env two_connections
                [(5000, CodeUpdate ''sock1'' (edit_message ''s1'' ''ann'' ''let a'' 1 5000)),
                 (5002, Close ''sock3''),
                 (5005, CodeUpdate ''sock1'' (edit_message ''s1'' ''ann'' ''let ab'' 2 5005))])) ''s1''
       = Some 2"
proof -
  have a: "code_update_accepted example_gateway 5000 ''sock1'' (edit_message ''s1'' ''ann'' ''let a'' 1 5000)"
    by code_simp
  have b: "map error_code
        (snd (handleCodeUpdate
                (fst (handleCodeUpdate example_gateway 5000 ''sock1''
                        (edit_message ''s1'' ''ann'' ''let a'' 1 5000)))
                5005 ''sock1'' (edit_message ''s2'' ''ann'' ''let ab'' 2 5005)))
       = [Some ''INVALID_SESSION'']"
    by code_simp
  have c: "code_update_accepted two_connections 5000 ''sock1'' (edit_message ''s1'' ''ann'' ''let a'' 1 5000)"
    by code_simp
  have d: "version_of
        (fst (run example_env two_connections
                [(5000, CodeUpdate ''sock1'' (edit_message ''s1'' ''ann'' ''let a'' 1 5000)),
                 (5002, Close ''sock3'')])) ''s1''
       = Some 1"
    by code_simp
  have e: "version_of
        (fst (run example_env two_connections
                [(5000, CodeUpdate ''sock1'' (edit_message ''s1'' ''ann'' ''let a'' 1 5000)),
                 (5002, Close ''sock3''),
                 (5005, CodeUpdate ''sock1'' (edit_message ''s1'' ''ann'' ''let ab'' 2 5005))])) ''s1''
       = Some 2"
    by code_simp
  from a b c d e show ?thesis by (intro conjI)
qed

text \<open>
  C5. An edit is accepted at time \<open>t0\<close>; the gateway then handles any events, none of
  them the closing of a connection of the sender. An edit of the same user that passes
  the membership checks (its connection is bound, its envelope names the bound session)
  and arrives less than 20 ms after \<open>t0\<close> is dropped silently: the handler returns the
  state as it found it (so the version counter is not bumped) and does nothing (no
  error frame, no broadcast). And in every run of the gateway, whatever is sent, fewer
  than 50 edits of a user are delivered.
\<close>

theorem edit_throttle:
  "(code_update_accepted g0 t0 c0 m0
      \<and> connections_stay_open env (or_empty (socketUsers g0 c0)) (fst (handleCodeUpdate g0 t0 c0 m0)) evs
      \<and> g = fst (run env (fst (handleCodeUpdate g0 t0 c0 m0)) evs)
      \<and> truthy (userSessions g c)
      \<and> or_empty (socketUsers g c) = or_empty (socketUsers g0 c0)
      \<and> or_empty (userSessions g c) = msg_sessionId m
      \<and> now - t0 < 20 \<longrightarrow>
        handleCodeUpdate g now c m = (g, []))
   \<and> length (filter (is_edit_by u) (snd (run env' g' evs'))) < 50"
proof (intro conjI impI)
  assume h: "code_update_accepted g0 t0 c0 m0
      \<and> connections_stay_open env (or_empty (socketUsers g0 c0)) (fst (handleCodeUpdate g0 t0 c0 m0)) evs
      \<and> g = fst (run env (fst (handleCodeUpdate g0 t0 c0 m0)) evs)
      \<and> truthy (userSessions g c)
      \<and> or_empty (socketUsers g c) = or_empty (socketUsers g0 c0)
      \<and> or_empty (userSessions g c) = msg_sessionId m
      \<and> now - t0 < 20"
  let ?u = "or_empty (socketUsers g0 c0)"
  let ?g1 = "fst (handleCodeUpdate g0 t0 c0 m0)"
  have acc: "code_update_accepted g0 t0 c0 m0"
    and stay: "connections_stay_open env ?u ?g1 evs"
    and g: "g = fst (run env ?g1 evs)"
    and bound: "truthy (userSessions g c)" "or_empty (socketUsers g c) = ?u"
      "or_empty (userSessions g c) = msg_sessionId m"
    and soon: "now - t0 < 20"
    using h by blast+
  from acc have "truthy (socketUsers g0 c0)" by (simp add: code_update_accepted_def)
  then have user: "truthy (socketUsers g c)" using bound(2) by (rule same_user_truthy)
  from run_throttles[OF stay] accepted_code_update_throttle[OF acc]
  obtain l where l: "codeUpdateThrottle g ?u = Some l" "t0 \<le> l"
    unfolding g by blast
  from l soon have "now - or_zero (codeUpdateThrottle g (or_empty (socketUsers g c))) < 20"
    unfolding bound(2) by (simp add: or_zero_def)
  with bound user show "handleCodeUpdate g now c m = (g, [])"
    by (simp add: handleCodeUpdate_def Let_def)
next
  have "filter (is_edit_by u) (snd (run env' g' evs')) = []"
    by (rule no_code_update_edits) (rule run_no_code_update)
  then show "length (filter (is_edit_by u) (snd (run env' g' evs'))) < 50" by simp
qed

text \<open>
  After Ann's accepted edit at 5000 and an edit of Bob at 5010, Ann's edit at 5015 is
  dropped, and one at 5020 would be accepted. Of 99 edits that Ann sends 10 ms apart,
  50 pass the throttle and consume a version, and none is delivered.
\<close>

theorem edit_throttle_witness:
  "code_update_accepted example_gateway 5000 ''sock1'' (edit_message ''s1'' ''ann'' ''let a'' 1 5000)
   \<and> connections_stay_open example_env ''ann''
        (fst (handleCodeUpdate example_gateway 5000 ''sock1'' (edit_message ''s1'' ''ann'' ''let a'' 1 5000)))
        [(5010, CodeUpdate ''sock2'' (edit_message ''s1'' ''bob'' ''let b'' 1 5010))]
   \<and> (5015::int) - 5000 < 20
   \<and> handleCodeUpdate
        (fst (run example_env
                (fst (handleCodeUpdate example_gateway 5000 ''sock1''
                        (edit_message ''s1'' ''ann'' ''let a'' 1 5000)))
                [(5010, CodeUpdate ''sock2'' (edit_message ''s1'' ''bob'' ''let b'' 1 5010))]))
        5015 ''sock1'' (edit_message ''s1'' ''ann'' ''let ab'' 2 5015)
       = (fst (run example_env
                (fst (handleCodeUpdate example_gateway 5000 ''sock1''
                        (edit_message ''s1'' ''ann'' ''let a'' 1 5000)))
                [(5010, CodeUpdate ''sock2'' (edit_message ''s1'' ''bob'' ''let b'' 1 5010))]),
          [])
   \<and> code_update_accepted
        (fst (run example_env
                (fst (handleCodeUpdate example_gateway 5000 ''sock1''
                        (edit_message ''s1'' ''ann'' ''let a'' 1 5000)))
                [(5010, CodeUpdate ''sock2'' (edit_message ''s1'' ''bob'' ''let b'' 1 5010))]))
        5020 ''sock1'' (edit_message ''s1'' ''ann'' ''let ab'' 2 5020)
   \<and> length (edit_burst 10000 99) = 99
   \<and> version_of (fst (run example_env example_gateway (edit_burst 10000 99))) ''s1'' = Some 50
   \<and> length (filter (is_edit_by ''ann'') (snd (run example_env example_gateway (edit_burst 10000 99)))) < 50"
proof -
  let ?first = "edit_message ''s1'' ''ann'' ''let a'' 1 5000"
  let ?evs = "[(5010, CodeUpdate ''sock2'' (edit_message ''s1'' ''bob'' ''let b'' 1 5010))]"
  let ?m = "edit_message ''s1'' ''ann'' ''let ab'' 2 5015"
  let ?g1 = "fst (handleCodeUpdate example_gateway 5000 ''sock1'' ?first)"
  let ?g = "fst (run example_env ?g1 ?evs)"
  have u: "or_empty (socketUsers example_gateway ''sock1'') = ''ann''"
    by (simp add: example_gateway_value or_empty_def)
  have a: "code_update_accepted example_gateway 5000 ''sock1'' ?first"
    by code_simp
  have s: "connections_stay_open example_env ''ann'' ?g1 ?evs"
    by simp
  have b1: "truthy (userSessions ?g ''sock1'')"
    by code_simp
  have b2: "or_empty (socketUsers ?g ''sock1'') = ''ann''"
    by code_simp
  have b3: "or_empty (userSessions ?g ''sock1'') = msg_sessionId ?m"
    by code_simp
  have t: "(5015::int) - 5000 < 20"
    by simp
  have n: "length (edit_burst 10000 99) = 99"
    by (simp add: edit_burst_def)
  have v: "version_of (fst (run example_env example_gateway (edit_burst 10000 99))) ''s1'' = Some 50"
    by code_simp
  note th = edit_throttle[where ?g0.0 = example_gateway and ?t0.0 = 5000 and ?c0.0 = "''sock1''"
      and ?m0.0 = ?first and env = example_env and evs = ?evs and g = ?g and c = "''sock1''" and m = ?m
      and now = 5015 and u = "''ann''" and env' = example_env and g' = example_gateway
      and evs' = "edit_burst 10000 99"]
  have d: "handleCodeUpdate ?g 5015 ''sock1'' ?m = (?g, [])"
    using th[THEN conjunct1] a s b1 b2 b3 t unfolding u by simp
  have k: "code_update_accepted ?g 5020 ''sock1'' (edit_message ''s1'' ''ann'' ''let ab'' 2 5020)"
    by code_simp
  from a s t d k n v th[THEN conjunct2] show ?thesis by (intro conjI)
qed

section \<open>Language changes\<close>

lemma accepted_language_change_state:
  assumes "language_change_accepted env g now client message"
  shows "languageChangeThrottle (fst (handleLanguageChange env g now client message))
             (or_empty (socketUsers g client)) = Some now
       \<and> map_option language
            (getSessionData (sessionsService (fst (handleLanguageChange env g now client message)))
               (msg_sessionId message))
           = Some (language_of (msg_payload message))"
proof -
  from assms obtain sd where sd: "map_of (sessionsService g) (msg_sessionId message) = Some sd"
    by (auto simp: language_change_accepted_def getSessionData_def)
  let ?ss1 = "AList.update (msg_sessionId message)
                (sd\<lparr>language := language_of (msg_payload message)\<rparr>) (sessionsService g)"
  have l1: "map_of ?ss1 (msg_sessionId message)
              = Some (sd\<lparr>language := language_of (msg_payload message)\<rparr>)"
    by (simp add: update_conv')
  have l2: "map_option language
              (map_of (updateUserLastSeen ?ss1 (msg_sessionId message) (or_empty (socketUsers g client)) now)
                 (msg_sessionId message))
            = Some (language_of (msg_payload message))"
    using l1 by (simp add: updateUserLastSeen_def update_conv' split: option.splits)
  show ?thesis
    using assms sd l2
    by (simp add: language_change_accepted_def handleLanguageChange_def Let_def
        updateSessionLanguage_def getSessionData_def)
qed

lemma accepted_language_change_payload:
  assumes "language_change_accepted env g now client message"
  shows "map msg_payload_of (snd (handleLanguageChange env g now client message)) = [msg_payload message]"
  using assms
  by (auto simp: language_change_accepted_def handleLanguageChange_def Let_def is_language_def
      language_of_def updateSessionLanguage_def getSessionData_def
      split: prod.splits option.splits json.splits)

text \<open>
  Ann's connection is admitted to session \<open>s1\<close>. Her language change to \<open>ruby\<close>, which
  is not a language, in an envelope that names session \<open>s2\<close>, is answered with
  \<open>INVALID_SESSION\<close>, not \<open>INVALID_LANGUAGE\<close>. And when Ann has a second connection that
  closes between her two valid changes, sent 1 s apart, both changes are broadcast, the
  session ends with the second language, and no \<open>RATE_LIMIT_EXCEEDED\<close> is sent.
\<close>

theorem language_change_is_not_always_validated_or_limited:
  "truthy (userSessions example_gateway ''sock1'') \<and> truthy (socketUsers example_gateway ''sock1'')
   \<and> \<not> is_language example_env (msg_payload (language_message ''s2'' ''ann'' ''ruby'' 5000))
   \<and> map error_code (snd (handleLanguageChange example_env example_gateway 5000 ''sock1''
                             (language_message ''s2'' ''ann'' ''ruby'' 5000)))
       = [Some ''INVALID_SESSION'']
   \<and> language_change_accepted example_env two_connections 5000 ''sock1''
        (language_message ''s1'' ''ann'' ''python'' 5000)
   \<and> is_language example_env (msg_payload (language_message ''s1'' ''ann'' ''typescript'' 6000))
   \<and> (6000::int) - 5000 < 5000
   \<and> map error_code
        (snd (run example_env two_connections
                [(5000, LanguageChange ''sock1'' (language_message ''s1'' ''ann'' ''python'' 5000)),
                 (5500, Close ''sock3''),
                 (6000, LanguageChange ''sock1'' (language_message ''s1'' ''ann'' ''typescript'' 6000))]))
       = [None, None, None, None]
   \<and> map msg_payload_of
        (filter is_language_changed
           (snd (run example_env two_connections
                   [(5000, LanguageChange ''sock1'' (language_message ''s1'' ''ann'' ''python'' 5000)),
                    (5500, Close ''sock3''),
                    (6000, LanguageChange ''sock1'' (language_message ''s1'' ''ann'' ''typescript'' 6000))])))
       = [JStr ''python'', JStr ''typescript'']
   \<and> map_option language
        (getSessionData
           (sessionsService
              (fst (run example_env two_connections
                      [(5000, LanguageChange ''sock1'' (language_message ''s1'' ''ann'' ''python'' 5000)),
                       (5500, Close ''sock3''),
                       (6000, LanguageChange ''sock1''
                                (language_message ''s1'' ''ann'' ''typescript'' 6000))])))
           ''s1'')
       = Some ''typescript''"
proof -
  let ?evs = "[(5000, LanguageChange ''sock1'' (language_message ''s1'' ''ann'' ''python'' 5000)),
               (5500, Close ''sock3''),
               (6000, LanguageChange ''sock1'' (language_message ''s1'' ''ann'' ''typescript'' 6000))]"
  have a: "truthy (userSessions example_gateway ''sock1'')" "truthy (socketUsers example_gateway ''sock1'')"
    by (simp_all add: example_gateway_value truthy_def)
  have b: "\<not> is_language example_env (msg_payload (language_message ''s2'' ''ann'' ''ruby'' 5000))"
    by (simp add: is_language_def example_env_def language_message_def)
  have c: "map error_code (snd (handleLanguageChange example_env example_gateway 5000 ''sock1''
                             (language_message ''s2'' ''ann'' ''ruby'' 5000)))
       = [Some ''INVALID_SESSION'']"
    by code_simp
  have d: "language_change_accepted example_env two_connections 5000 ''sock1''
        (language_message ''s1'' ''ann'' ''python'' 5000)"
    by code_simp
  have e: "is_language example_env (msg_payload (language_message ''s1'' ''ann'' ''typescript'' 6000))"
    by (simp add: is_language_def example_env_def language_message_def)
  have f: "(6000::int) - 5000 < 5000"
    by simp
  have g: "map error_code (snd (run example_env two_connections ?evs)) = [None, None, None, None]"
    by code_simp
  have h: "map msg_payload_of (filter is_language_changed (snd (run example_env two_connections ?evs)))
       = [JStr ''python'', JStr ''typescript'']"
    by code_simp
  have i: "map_option language
        (getSessionData (sessionsService (fst (run example_env two_connections ?evs))) ''s1'')
       = Some ''typescript''"
    by code_simp
  from a b c d e f g h i show ?thesis by (intro conjI)
qed

text \<open>
  C6. A language-change event comes from an admitted connection and names the session
  the connection is bound to. If its payload is not one of the enumerated languages,
  the sender alone is sent an \<open>INVALID_LANGUAGE\<close> error and the state stays as it was,
  the session's language with it. If the payload is a language and a change of the same
  user was accepted at \<open>t0\<close>, less than 5000 ms earlier, the gateway having handled in
  between any events but the closing of a connection of that user, the sender alone is
  sent a \<open>RATE_LIMIT_EXCEEDED\<close> error and the state stays as it was: nothing is
  broadcast. The accepted change itself was broadcast once, to the room, carrying its
  language, which became the session's language. So the two requests yield exactly one
  broadcast and exactly one \<open>RATE_LIMIT_EXCEEDED\<close>, to the second sender.
\<close>

theorem language_change_validation_and_limit:
  assumes "truthy (userSessions g client)" and "truthy (socketUsers g client)"
      and "or_empty (userSessions g client) = msg_sessionId message"
  shows "(\<not> is_language env (msg_payload message) \<longrightarrow>
            fst (handleLanguageChange env g now client message) = g
            \<and> map error_code (snd (handleLanguageChange env g now client message))
                = [Some ''INVALID_LANGUAGE'']
            \<and> map recipients_of (snd (handleLanguageChange env g now client message)) = [[client]])
       \<and> (is_language env (msg_payload message)
            \<and> language_change_accepted env g0 t0 c0 m0
            \<and> or_empty (socketUsers g0 c0) = or_empty (socketUsers g client)
            \<and> connections_stay_open env (or_empty (socketUsers g0 c0))
                 (fst (handleLanguageChange env g0 t0 c0 m0)) evs
            \<and> g = fst (run env (fst (handleLanguageChange env g0 t0 c0 m0)) evs)
            \<and> now - t0 < 5000 \<longrightarrow>
            fst (handleLanguageChange env g now client message) = g
            \<and> map error_code (snd (handleLanguageChange env g now client message))
                = [Some ''RATE_LIMIT_EXCEEDED'']
            \<and> map recipients_of (snd (handleLanguageChange env g now client message)) = [[client]]
            \<and> map is_language_changed (snd (handleLanguageChange env g0 t0 c0 m0)) = [True]
            \<and> map recipients_of (snd (handleLanguageChange env g0 t0 c0 m0))
                = [rooms g0 (msg_sessionId m0)]
            \<and> map msg_payload_of (snd (handleLanguageChange env g0 t0 c0 m0)) = [msg_payload m0]
            \<and> map_option language
                 (getSessionData (sessionsService (fst (handleLanguageChange env g0 t0 c0 m0)))
                    (msg_sessionId m0))
                = Some (language_of (msg_payload m0)))"
proof (intro conjI impI)
  assume "\<not> is_language env (msg_payload message)"
  with assms have "handleLanguageChange env g now client message =
              (g, [Emit [client] ''error''
                     (error_message (msg_sessionId message) (or_empty (socketUsers g client))
                        ''INVALID_LANGUAGE'' ''Unsupported language'' now)])"
    by (simp add: handleLanguageChange_def Let_def)
  then show "fst (handleLanguageChange env g now client message) = g"
    and "map error_code (snd (handleLanguageChange env g now client message)) = [Some ''INVALID_LANGUAGE'']"
    and "map recipients_of (snd (handleLanguageChange env g now client message)) = [[client]]"
    by (simp_all add: error_message_def)
next
  assume h: "is_language env (msg_payload message)
            \<and> language_change_accepted env g0 t0 c0 m0
            \<and> or_empty (socketUsers g0 c0) = or_empty (socketUsers g client)
            \<and> connections_stay_open env (or_empty (socketUsers g0 c0))
                 (fst (handleLanguageChange env g0 t0 c0 m0)) evs
            \<and> g = fst (run env (fst (handleLanguageChange env g0 t0 c0 m0)) evs)
            \<and> now - t0 < 5000"
  let ?u = "or_empty (socketUsers g0 c0)"
  let ?g1 = "fst (handleLanguageChange env g0 t0 c0 m0)"
  have lang: "is_language env (msg_payload message)"
    and acc: "language_change_accepted env g0 t0 c0 m0"
    and user: "?u = or_empty (socketUsers g client)"
    and stay: "connections_stay_open env ?u ?g1 evs"
    and g: "g = fst (run env ?g1 evs)"
    and soon: "now - t0 < 5000"
    using h by blast+
  from accepted_language_change_state[OF acc]
  have th: "languageChangeThrottle ?g1 ?u = Some t0"
    and l: "map_option language (getSessionData (sessionsService ?g1) (msg_sessionId m0))
              = Some (language_of (msg_payload m0))"
    by blast+
  from run_throttles[OF stay] th
  obtain l' where l': "languageChangeThrottle g ?u = Some l'" "t0 \<le> l'"
    unfolding g by blast
  from l' soon have "now - or_zero (languageChangeThrottle g (or_empty (socketUsers g client))) < 5000"
    unfolding user[symmetric] by (simp add: or_zero_def)
  with assms lang have second: "handleLanguageChange env g now client message =
              (g, [Emit [client] ''error''
                     (error_message (msg_sessionId message) (or_empty (socketUsers g client))
                        ''RATE_LIMIT_EXCEEDED'' ''Language changes are limited to 1 per 5 seconds'' now)])"
    by (simp add: handleLanguageChange_def Let_def)
  from accepted_language_change[OF acc] obtain g' msg where
    first: "handleLanguageChange env g0 t0 c0 m0 =
           (g', [Emit (rooms g0 (msg_sessionId m0)) ''language-changed'' msg])"
    by blast
  from second show "fst (handleLanguageChange env g now client message) = g"
    and "map error_code (snd (handleLanguageChange env g now client message)) = [Some ''RATE_LIMIT_EXCEEDED'']"
    and "map recipients_of (snd (handleLanguageChange env g now client message)) = [[client]]"
    by (simp_all add: error_message_def)
  from first show "map is_language_changed (snd (handleLanguageChange env g0 t0 c0 m0)) = [True]"
    and "map recipients_of (snd (handleLanguageChange env g0 t0 c0 m0)) = [rooms g0 (msg_sessionId m0)]"
    by simp_all
  show "map msg_payload_of (snd (handleLanguageChange env g0 t0 c0 m0)) = [msg_payload m0]"
    by (rule accepted_language_change_payload[OF acc])
  show "map_option language (getSessionData (sessionsService ?g1) (msg_sessionId m0))
          = Some (language_of (msg_payload m0))"
    by (rule l)
qed

text \<open>
  Ann's change to \<open>ruby\<close> is refused. Her change to \<open>python\<close> at 5000 is broadcast to
  both connections of the room; after an edit of Bob, her change to \<open>typescript\<close> at
  7000 is refused with \<open>RATE_LIMIT_EXCEEDED\<close>, sent to her alone, and at 10000 it would
  be accepted.
\<close>

theorem language_change_validation_and_limit_witness:
  "truthy (userSessions example_gateway ''sock1'') \<and> truthy (socketUsers example_gateway ''sock1'')
   \<and> or_empty (userSessions example_gateway ''sock1'')
        = msg_sessionId (language_message ''s1'' ''ann'' ''ruby'' 5000)
   \<and> \<not> is_language example_env (msg_payload (language_message ''s1'' ''ann'' ''ruby'' 5000))
   \<and> fst (handleLanguageChange example_env example_gateway 5000 ''sock1''
             (language_message ''s1'' ''ann'' ''ruby'' 5000))
       = example_gateway
   \<and> map error_code (snd (handleLanguageChange example_env example_gateway 5000 ''sock1''
                             (language_message ''s1'' ''ann'' ''ruby'' 5000)))
       = [Some ''INVALID_LANGUAGE'']
   \<and> map recipients_of (snd (handleLanguageChange example_env example_gateway 5000 ''sock1''
                                (language_message ''s1'' ''ann'' ''ruby'' 5000)))
       = [[''sock1'']]
   \<and> language_change_accepted example_env example_gateway 5000 ''sock1''
        (language_message ''s1'' ''ann'' ''python'' 5000)
   \<and> connections_stay_open example_env ''ann''
        (fst (handleLanguageChange example_env example_gateway 5000 ''sock1''
                (language_message ''s1'' ''ann'' ''python'' 5000)))
        [(6000, CodeUpdate ''sock2'' (edit_message ''s1'' ''bob'' ''let b'' 1 6000))]
   \<and> is_language example_env (msg_payload (language_message ''s1'' ''ann'' ''typescript'' 7000))
   \<and> (7000::int) - 5000 < 5000
   \<and> fst (handleLanguageChange example_env
             (fst (run example_env
                     (fst (handleLanguageChange example_env example_gateway 5000 ''sock1''
                             (language_message ''s1'' ''ann'' ''python'' 5000)))
                     [(6000, CodeUpdate ''sock2'' (edit_message ''s1'' ''bob'' ''let b'' 1 6000))]))
             7000 ''sock1'' (language_message ''s1'' ''ann'' ''typescript'' 7000))
       = fst (run example_env
                (fst (handleLanguageChange example_env example_gateway 5000 ''sock1''
                        (language_message ''s1'' ''ann'' ''python'' 5000)))
                [(6000, CodeUpdate ''sock2'' (edit_message ''s1'' ''bob'' ''let b'' 1 6000))])
   \<and> map error_code
        (snd (handleLanguageChange example_env
                (fst (run example_env
                        (fst (handleLanguageChange example_env example_gateway 5000 ''sock1''
                                (language_message ''s1'' ''ann'' ''python'' 5000)))
                        [(6000, CodeUpdate ''sock2'' (edit_message ''s1'' ''bob'' ''let b'' 1 6000))]))
                7000 ''sock1'' (language_message ''s1'' ''ann'' ''typescript'' 7000)))
       = [Some ''RATE_LIMIT_EXCEEDED'']
   \<and> map recipients_of
        (snd (handleLanguageChange example_env
                (fst (run example_env
                        (fst (handleLanguageChange example_env example_gateway 5000 ''sock1''
                                (language_message ''s1'' ''ann'' ''python'' 5000)))
                        [(6000, CodeUpdate ''sock2'' (edit_message ''s1'' ''bob'' ''let b'' 1 6000))]))
                7000 ''sock1'' (language_message ''s1'' ''ann'' ''typescript'' 7000)))
       = [[''sock1'']]
   \<and> map is_language_changed
        (snd (handleLanguageChange example_env example_gateway 5000 ''sock1''
                (language_message ''s1'' ''ann'' ''python'' 5000)))
       = [True]
   \<and> map recipients_of
        (snd (handleLanguageChange example_env example_gateway 5000 ''sock1''
                (language_message ''s1'' ''ann'' ''python'' 5000)))
       = [[''sock1'', ''sock2'']]
   \<and> map msg_payload_of
        (snd (handleLanguageChange example_env example_gateway 5000 ''sock1''
                (language_message ''s1'' ''ann'' ''python'' 5000)))
       = [JStr ''python'']
   \<and> map_option language
        (getSessionData
           (sessionsService
              (fst (handleLanguageChange example_env example_gateway 5000 ''sock1''
                      (language_message ''s1'' ''ann'' ''python'' 5000))))
           ''s1'')
       = Some ''python''
   \<and> language_change_accepted example_env
        (fst (run example_env
                (fst (handleLanguageChange example_env example_gateway 5000 ''sock1''
                        (language_message ''s1'' ''ann'' ''python'' 5000)))
                [(6000, CodeUpdate ''sock2'' (edit_message ''s1'' ''bob'' ''let b'' 1 6000))]))
        10000 ''sock1'' (language_message ''s1'' ''ann'' ''typescript'' 10000)"
proof -
  let ?bad = "language_message ''s1'' ''ann'' ''ruby'' 5000"
  let ?first = "language_message ''s1'' ''ann'' ''python'' 5000"
  let ?second = "language_message ''s1'' ''ann'' ''typescript'' 7000"
  let ?evs = "[(6000, CodeUpdate ''sock2'' (edit_message ''s1'' ''bob'' ''let b'' 1 6000))]"
  let ?g1 = "fst (handleLanguageChange example_env example_gateway 5000 ''sock1'' ?first)"
  let ?g = "fst (run example_env ?g1 ?evs)"
  have b: "truthy (userSessions example_gateway ''sock1'')" "truthy (socketUsers example_gateway ''sock1'')"
    by (simp_all add: example_gateway_value truthy_def)
  have s: "or_empty (userSessions example_gateway ''sock1'') = msg_sessionId ?bad"
    by (simp add: example_gateway_value or_empty_def language_message_def)
  have l: "\<not> is_language example_env (msg_payload ?bad)" "is_language example_env (msg_payload ?second)"
    by (simp_all add: is_language_def example_env_def language_message_def)
  have acc: "language_change_accepted example_env example_gateway 5000 ''sock1'' ?first"
    by code_simp
  have stay: "connections_stay_open example_env ''ann'' ?g1 ?evs"
    by simp
  have t: "(7000::int) - 5000 < 5000"
    by simp
  have gb: "truthy (userSessions ?g ''sock1'')" "truthy (socketUsers ?g ''sock1'')"
    by code_simp+
  have gs: "or_empty (userSessions ?g ''sock1'') = msg_sessionId ?second"
    by code_simp
  have gu: "or_empty (socketUsers example_gateway ''sock1'') = or_empty (socketUsers ?g ''sock1'')"
    by code_simp
  have r: "rooms example_gateway ''s1'' = [''sock1'', ''sock2'']"
    by (simp add: example_gateway_value)
  have p: "msg_payload ?first = JStr ''python''" "language_of (JStr ''python'') = ''python''"
    by (simp_all add: language_message_def language_of_def)
  have q: "msg_sessionId ?first = ''s1''"
    by (simp add: language_message_def)
  have stay': "connections_stay_open example_env (or_empty (socketUsers example_gateway ''sock1'')) ?g1 ?evs"
    by simp
  have hyp: "is_language example_env (msg_payload ?second)
            \<and> language_change_accepted example_env example_gateway 5000 ''sock1'' ?first
            \<and> or_empty (socketUsers example_gateway ''sock1'') = or_empty (socketUsers ?g ''sock1'')
            \<and> connections_stay_open example_env (or_empty (socketUsers example_gateway ''sock1'')) ?g1 ?evs
            \<and> ?g = fst (run example_env ?g1 ?evs)
            \<and> (7000::int) - 5000 < 5000"
    using l(2) acc gu stay' t by (intro conjI refl)
  have later: "language_change_accepted example_env ?g 10000 ''sock1''
                 (language_message ''s1'' ''ann'' ''typescript'' 10000)"
    by code_simp
  note invalid = language_change_validation_and_limit[OF b s, where env = example_env and now = 5000,
      THEN conjunct1, THEN mp, OF l(1)]
  note limited = language_change_validation_and_limit[OF gb gs, where env = example_env and now = 7000
      and ?g0.0 = example_gateway and ?t0.0 = 5000 and ?c0.0 = "''sock1''" and ?m0.0 = ?first
      and evs = ?evs, THEN conjunct2, THEN mp, OF hyp]
  have lim: "fst (handleLanguageChange example_env ?g 7000 ''sock1'' ?second) = ?g
            \<and> map error_code (snd (handleLanguageChange example_env ?g 7000 ''sock1'' ?second))
                = [Some ''RATE_LIMIT_EXCEEDED'']
            \<and> map recipients_of (snd (handleLanguageChange example_env ?g 7000 ''sock1'' ?second))
                = [[''sock1'']]
            \<and> map is_language_changed (snd (handleLanguageChange example_env example_gateway 5000 ''sock1'' ?first))
                = [True]
            \<and> map recipients_of (snd (handleLanguageChange example_env example_gateway 5000 ''sock1'' ?first))
                = [[''sock1'', ''sock2'']]
            \<and> map msg_payload_of (snd (handleLanguageChange example_env example_gateway 5000 ''sock1'' ?first))
                = [JStr ''python'']
            \<and> map_option language (getSessionData (sessionsService ?g1) ''s1'') = Some ''python''"
    using limited unfolding p q r .
  from b s l(1) invalid[THEN conjunct1] invalid[THEN conjunct2, THEN conjunct1]
    invalid[THEN conjunct2, THEN conjunct2] acc stay l(2) t
    lim[THEN conjunct1] lim[THEN conjunct2, THEN conjunct1] lim[THEN conjunct2, THEN conjunct2, THEN conjunct1]
    lim[THEN conjunct2, THEN conjunct2, THEN conjunct2, THEN conjunct1]
    lim[THEN conjunct2, THEN conjunct2, THEN conjunct2, THEN conjunct2, THEN conjunct1]
    lim[THEN conjunct2, THEN conjunct2, THEN conjunct2, THEN conjunct2, THEN conjunct2, THEN conjunct1]
    lim[THEN conjunct2, THEN conjunct2, THEN conjunct2, THEN conjunct2, THEN conjunct2, THEN conjunct2]
    later
  show ?thesis by (intro conjI)
qed

section \<open>Properties of the HTTP rate limiter\<close>

lemma canActivate_cases:
  "canActivate store request now =
     (case store (getKey request) of
        None \<Rightarrow> (store(getKey request \<mapsto> \<lparr>count = 1, resetTime = now + window (getLimit request)\<rparr>),
                 Inr True)
      | Some r \<Rightarrow>
          if resetTime r < now
          then (store(getKey request \<mapsto> \<lparr>count = 1, resetTime = now + window (getLimit request)\<rparr>),
                Inr True)
          else if limit_max (getLimit request) \<le> count r
          then (store, Inl RATE_LIMIT_EXCEEDED)
          else (store(getKey request \<mapsto> r\<lparr>count := count r + 1\<rparr>), Inr True))"
  by (simp add: canActivate_def Let_def)

lemma startsWith_append: "startsWith s (p @ q) \<Longrightarrow> startsWith s p"
  by (induction s p rule: startsWith.induct) auto

lemma str_includes_append: "str_includes s (p @ q) \<Longrightarrow> str_includes s p"
proof (induction s)
  case Nil
  then show ?case by simp
next
  case (Cons a s)
  then show ?case by (auto dest: startsWith_append)
qed

lemma replaced_patterns:
  "str_replace ''POST /api/sessions'' ''/api'' [] = ''POST /sessions''"
  "str_replace ''POST /api/sessions/:sessionId/join'' ''/api'' [] = ''POST /sessions'' @ ''/:sessionId/join''"
  by simp_all

lemma getLimit_unfolded:
  "getLimit request =
     (if str_includes (http_method request @ '' '' @ request_path request) ''POST /sessions''
      then \<lparr>limit_max = 10, window = 60000\<rparr>
      else default_limit)"
proof -
  let ?key = "http_method request @ '' '' @ request_path request"
  have "str_includes ?key (''POST /sessions'' @ ''/:sessionId/join'') \<Longrightarrow> str_includes ?key ''POST /sessions''"
    by (rule str_includes_append)
  then show ?thesis
    unfolding getLimit_def limits_def getLimit_entries.simps replaced_patterns
    by auto
qed

text \<open>
  C7, the limit of the join route. \<open>getLimit\<close> tries the patterns in the order of the
  table and takes the first that occurs in \<open>method path\<close>. With \<open>/api\<close> removed, the
  create pattern \<open>POST /sessions\<close> is the beginning of the join pattern, so no request
  is ever given the join limit of 20: a join request whose route path is
  \<open>/sessions/:sessionId/join\<close> gets 10, and one whose route path carries the global
  prefix, \<open>/api/sessions/:sessionId/join\<close>, gets the default 100, as does then the
  create route \<open>/api/sessions\<close>. With a stored count of 10 the eleventh join request
  at the first path is refused.
\<close>

theorem join_limit_is_never_applied:
  "limit_max (getLimit request) \<noteq> 20
   \<and> getLimit \<lparr>ip = Some ''10.0.0.7'', remoteAddress = None, http_method = ''POST'',
                route_path = Some ''/sessions/:sessionId/join'', path = ''/sessions/abc/join''\<rparr>
       = \<lparr>limit_max = 10, window = 60000\<rparr>
   \<and> getLimit \<lparr>ip = Some ''10.0.0.7'', remoteAddress = None, http_method = ''POST'',
                route_path = Some ''/api/sessions/:sessionId/join'', path = ''/api/sessions/abc/join''\<rparr>
       = \<lparr>limit_max = 100, window = 60000\<rparr>
   \<and> getLimit \<lparr>ip = Some ''10.0.0.7'', remoteAddress = None, http_method = ''POST'',
                route_path = Some ''/api/sessions'', path = ''/api/sessions''\<rparr>
       = \<lparr>limit_max = 100, window = 60000\<rparr>
   \<and> snd (canActivate
            [''10.0.0.7:POST /sessions/:sessionId/join'' \<mapsto> \<lparr>count = 10, resetTime = 60000\<rparr>]
            \<lparr>ip = Some ''10.0.0.7'', remoteAddress = None, http_method = ''POST'',
             route_path = Some ''/sessions/:sessionId/join'', path = ''/sessions/abc/join''\<rparr> 5000)
       = Inl RATE_LIMIT_EXCEEDED"
proof (intro conjI)
  show "limit_max (getLimit request) \<noteq> 20"
    by (simp add: getLimit_unfolded default_limit_def)
  show "getLimit \<lparr>ip = Some ''10.0.0.7'', remoteAddress = None, http_method = ''POST'',
                route_path = Some ''/sessions/:sessionId/join'', path = ''/sessions/abc/join''\<rparr>
       = \<lparr>limit_max = 10, window = 60000\<rparr>"
    by (simp add: getLimit_unfolded request_path_def truthy_def or_empty_def)
  show "getLimit \<lparr>ip = Some ''10.0.0.7'', remoteAddress = None, http_method = ''POST'',
                route_path = Some ''/api/sessions/:sessionId/join'', path = ''/api/sessions/abc/join''\<rparr>
       = \<lparr>limit_max = 100, window = 60000\<rparr>"
    by (simp add: getLimit_unfolded request_path_def truthy_def or_empty_def default_limit_def)
  show "getLimit \<lparr>ip = Some ''10.0.0.7'', remoteAddress = None, http_method = ''POST'',
                route_path = Some ''/api/sessions'', path = ''/api/sessions''\<rparr>
       = \<lparr>limit_max = 100, window = 60000\<rparr>"
    by (simp add: getLimit_unfolded request_path_def truthy_def or_empty_def default_limit_def)
  show "snd (canActivate
            [''10.0.0.7:POST /sessions/:sessionId/join'' \<mapsto> \<lparr>count = 10, resetTime = 60000\<rparr>]
            \<lparr>ip = Some ''10.0.0.7'', remoteAddress = None, http_method = ''POST'',
             route_path = Some ''/sessions/:sessionId/join'', path = ''/sessions/abc/join''\<rparr> 5000)
       = Inl RATE_LIMIT_EXCEEDED"
    by (simp add: canActivate_cases getKey_def getLimit_unfolded request_path_def truthy_def or_empty_def)
qed

section \<open>Properties of the client's connection hook\<close>

lemma on_event_quiet:
  "snd (on_event h e) = []
   \<and> reconnectTimeoutRef (fst (on_event h e)) = reconnectTimeoutRef h
   \<and> reconnectAttemptsRef (fst (on_event h e)) = (if e = SocketConnect then 0 else reconnectAttemptsRef h)"
  by (cases e) (simp_all add: on_connect_def on_disconnect_def on_connect_error_def)

lemma on_events_quiet:
  "snd (on_events h es) = [] \<and> reconnectTimeoutRef (fst (on_events h es)) = reconnectTimeoutRef h"
proof (induction es arbitrary: h)
  case Nil
  then show ?case by simp
next
  case (Cons e es)
  from Cons.IH[of "fst (on_event h e)"] on_event_quiet[of h e]
  show ?case by (simp add: split_beta Let_def)
qed

text \<open>
  C9. The hook switches socket.io's own reconnection off, to reconnect by itself, and
  it has the attempt counter, the timer reference and the constants 5 and 1000 for
  that; but its listeners only record what happened. A closure clears \<open>isConnected\<close>,
  a connection failure stores the error, and neither arms a timer, opens a socket or
  touches the attempt counter. So after any sequence of connection events the hook has
  made no call at all and \<open>reconnectTimeoutRef\<close> is what it was: the reconnect attempt
  that should follow a failure or a closure is never scheduled, after any delay. Only
  the reset of the attempt counter on a successful connection is there.
\<close>

theorem reconnect_is_never_scheduled:
  "on_disconnect h reason = (h\<lparr>socketRef := map_option (\<lambda>c. False) (socketRef h), isConnected := False\<rparr>, [])
   \<and> on_connect_error h err = (h\<lparr>connectionError := Some err\<rparr>, [])
   \<and> snd (on_events h es) = []
   \<and> reconnectTimeoutRef (fst (on_events h es)) = reconnectTimeoutRef h
   \<and> reconnectAttemptsRef (fst (on_connect h)) = 0
   \<and> isConnected (fst (on_connect h))
   \<and> RECONNECTION_ATTEMPTS = 5 \<and> RECONNECTION_DELAY = 1000"
  using on_events_quiet[of h es]
  by (simp add: on_connect_def on_disconnect_def on_connect_error_def
      RECONNECTION_ATTEMPTS_def RECONNECTION_DELAY_def)

text \<open>
  A connected hook whose socket closes unexpectedly and whose next two connection
  attempts fail has armed no timer, opened no socket and counted no attempt.
\<close>

theorem closure_schedules_nothing:
  "on_disconnect \<lparr>socketRef = Some True, isConnected = True, connectionError = None,
                  reconnectAttemptsRef = 0, reconnectTimeoutRef = None\<rparr> ''transport close''
     = (\<lparr>socketRef = Some False, isConnected = False, connectionError = None,
         reconnectAttemptsRef = 0, reconnectTimeoutRef = None\<rparr>, [])
   \<and> on_events \<lparr>socketRef = Some True, isConnected = True, connectionError = None,
                 reconnectAttemptsRef = 0, reconnectTimeoutRef = None\<rparr>
        [SocketDisconnected ''transport close'', SocketConnectError ''timeout'',
         SocketConnectError ''timeout'']
     = (\<lparr>socketRef = Some False, isConnected = False, connectionError = Some ''timeout'',
         reconnectAttemptsRef = 0, reconnectTimeoutRef = None\<rparr>, [])"
  by (simp add: on_connect_def on_disconnect_def on_connect_error_def)

end
